theory Spec2Isabelle
  imports Main "HOL-Library.Sublist"
begin

text \<open>
  A model of \<open>api/server/services/Endpoints/openAI/initialize.js\<close>, which resolves the
  credential and the client options of a chat request, and of the route \<open>PUT /keys\<close>
  of \<open>api/server/routes/keys.js\<close>, with the properties of both.
\<close>

section \<open>JavaScript values and operators\<close>

text \<open>
  The values that are only stored and passed on: the properties of a model-parameter
  object, the parameters a deployment group adds, the body of an HTTP response and what
  \<open>getLLMConfig\<close> computes. Numbers are integers (stream rates are milliseconds).
\<close>

datatype jsval =
    JUndefined
  | JNull
  | JBool bool
  | JNum int
  | JStr string
  | JArr "jsval list"
  | JObj "(string \<times> jsval) list"

text \<open>
  A value typed \<open>'a option\<close> is \<open>None\<close> when it is \<open>undefined\<close> or \<open>null\<close>, and so
  is what reading a property gives when the object has no such property.
  \<open>a ?? b\<close> is \<open>nullish a b\<close>; \<open>!s\<close> on a string is \<open>\<not> str_truthy s\<close> (the empty
  string is falsy) and \<open>!n\<close> on a number is \<open>\<not> num_truthy n\<close> (zero is falsy).
\<close>

definition nullish :: "'a option \<Rightarrow> 'a \<Rightarrow> 'a" where
  "nullish a b = (case a of None \<Rightarrow> b | Some v \<Rightarrow> v)"

definition nullish_opt :: "'a option \<Rightarrow> 'a option \<Rightarrow> 'a option" where
  "nullish_opt a b = (case a of None \<Rightarrow> b | Some v \<Rightarrow> Some v)"

definition str_truthy :: "string option \<Rightarrow> bool" where
  "str_truthy s = (case s of None \<Rightarrow> False | Some v \<Rightarrow> v \<noteq> [])"

definition num_truthy :: "int option \<Rightarrow> bool" where
  "num_truthy n = (case n of None \<Rightarrow> False | Some v \<Rightarrow> v \<noteq> 0)"

text \<open>
  Where having a property matters, that is where an object is spread or assigned over
  defaults, the property is typed \<open>'a own option\<close>: \<open>None\<close> when the object has no
  such property of its own, \<open>Some Nullish\<close> when it has one whose value is \<open>undefined\<close>
  or \<open>null\<close>, \<open>Some (Value v)\<close> when it has one with value \<open>v\<close>.
\<close>

datatype 'a own = Nullish | Value 'a

definition js_of_str :: "string option \<Rightarrow> jsval" where
  "js_of_str s = (case s of None \<Rightarrow> JUndefined | Some v \<Rightarrow> JStr v)"

text \<open>\<open>s.includes(p)\<close>: does \<open>p\<close> occur in \<open>s\<close> as a run of consecutive characters.\<close>

fun starts_with :: "string \<Rightarrow> string \<Rightarrow> bool" where
  "starts_with s [] = True"
| "starts_with [] (c # p) = False"
| "starts_with (d # s) (c # p) = (d = c \<and> starts_with s p)"

fun str_includes :: "string \<Rightarrow> string \<Rightarrow> bool" where
  "str_includes [] p = (p = [])"
| "str_includes (d # s) p = (starts_with (d # s) p \<or> str_includes s p)"

section \<open>Configuration: environment, application locals, Azure groups\<close>

text \<open>
  Modelled from the spec: the enumeration \<open>EModelEndpoint\<close> is defined in
  librechat-data-provider, outside the files at hand. The spec has one identifier for
  the default, relay-backed provider and one for the Azure-managed one;
  \<open>routes/keys.js\<close> writes the first as the literal \<open>openAI\<close>.
\<close>

definition EModelEndpoint_openAI :: string where
  "EModelEndpoint_openAI = ''openAI''"

definition EModelEndpoint_azureOpenAI :: string where
  "EModelEndpoint_azureOpenAI = ''azureOpenAI''"

text \<open>The variables \<open>initializeClient\<close> destructures from \<open>process.env\<close>.\<close>

record env =
  PROXY :: "string option"
  OPENAI_API_KEY :: "string option"
  AZURE_API_KEY :: "string option"
  OPENAI_REVERSE_PROXY :: "string option"
  AZURE_OPENAI_BASEURL :: "string option"
  OPENAI_SUMMARIZE :: "string option"
  DEBUG_OPENAI :: "string option"
  OPENROUTER_KEY :: "string option"

text \<open>A user-key record of the key store, found by user id and provider name. The user
  id is the value the record was stored under: the string \<open>req.user.id\<close> for a record
  stored under a caller's id.\<close>

record key_record =
  key_value :: string
  key_expiresAt :: "string option"

type_synonym key_store = "(jsval \<times> string) \<rightharpoonup> key_record"

text \<open>What a request handler can reach besides its arguments: the process environment
  and the key store behind \<open>UserService\<close>.\<close>

record server =
  process_env :: env
  userKeys :: key_store

record azure_options =
  azureOpenAIApiKey :: "string option"
  azureOpenAIApiInstanceName :: "string option"
  azureOpenAIApiDeploymentName :: "string option"
  azureOpenAIApiVersion :: "string option"

text \<open>An entry of \<open>modelGroupMap\<close> (\<open>modelGroupMap[modelName].group\<close>).\<close>

record model_entry =
  mg_group :: string

text \<open>An entry of \<open>groupMap\<close>. \<open>initializeClient\<close> reads \<open>addParams\<close>,
  \<open>dropParams\<close> and \<open>forcePrompt\<close>; the group's credentials and flags are for
  \<open>mapModelToAzureConfig\<close>. A stream rate written in a group entry is a property
  \<open>initializeClient\<close> never reads.\<close>

record group_config =
  grp_apiKey :: "string option"
  grp_instanceName :: "string option"
  grp_deploymentName :: "string option"
  grp_version :: "string option"
  grp_baseURL :: "string option"
  grp_additionalHeaders :: "(string \<rightharpoonup> string) option"
  grp_serverless :: bool
  grp_addParams :: "(string \<times> jsval) list option"
  grp_dropParams :: "string list option"
  grp_forcePrompt :: "bool option"
  grp_streamRate :: "int option"

text \<open>\<open>req.app.locals[EModelEndpoint.azureOpenAI]\<close> (\<open>TAzureConfig\<close>).\<close>

record azure_config =
  az_modelGroupMap :: "string \<rightharpoonup> model_entry"
  az_groupMap :: "string \<rightharpoonup> group_config"
  az_titleConvo :: "bool option"
  az_titleModel :: "string option"
  az_titleMethod :: "string option"
  az_streamRate :: "int option"

text \<open>\<open>req.app.locals[EModelEndpoint.openAI]\<close> and \<open>req.app.locals.all\<close>
  (\<open>TBaseEndpoint\<close>).\<close>

record base_endpoint =
  cfg_streamRate :: "int option"
  cfg_titleModel :: "string option"

record app_locals =
  locals_azureOpenAI :: "azure_config option"
  locals_openAI :: "base_endpoint option"
  locals_all :: "base_endpoint option"

text \<open>The request: \<open>req.body.key\<close>, \<open>req.body.model\<close>, \<open>req.body.endpoint\<close>,
  \<open>req.app.locals\<close> and \<open>req.user.id\<close>.\<close>

record request =
  body_key :: "string option"
  body_model :: "string option"
  body_endpoint :: "string option"
  locals :: app_locals
  user_id :: string

section \<open>Client options\<close>

text \<open>
  Objects the caller owns and the function writes to live in a heap: an address holds a
  property map. \<open>endpointOption.model_parameters\<close> and \<open>endpointOption.modelOptions\<close>
  are such references.
\<close>

type_synonym addr = nat
type_synonym heap = "addr \<Rightarrow> (string \<rightharpoonup> jsval)"

text \<open>\<open>o.p = v\<close> for the object \<open>o\<close> at address \<open>a\<close>.\<close>

definition assign_prop :: "heap \<Rightarrow> addr \<Rightarrow> string \<Rightarrow> jsval \<Rightarrow> heap" where
  "assign_prop h a p v = h(a := (h a)(p \<mapsto> v))"

text \<open>\<open>clientOptions.azure\<close> is \<open>false\<close> or the Azure credential block.\<close>

datatype azure_field = AzureFalse | AzureCredentials azure_options

text \<open>
  The properties of \<open>clientOptions\<close>. \<open>endpointOption\<close> is an object of the same shape
  (it is spread into \<open>clientOptions\<close>), any property of which may be missing. The
  properties the function gives a default, \<open>contextStrategy\<close>, \<open>proxy\<close>, \<open>debug\<close>,
  \<open>reverseProxyUrl\<close> and \<open>modelOptions\<close>, tell a missing property from one whose value
  is \<open>undefined\<close> or \<open>null\<close>: the second replaces the default. Every other property
  is only read by the function, and reads the same (\<open>None\<close>) in both cases.
\<close>

record options =
  contextStrategy :: "string own option"
  proxy :: "string own option"
  debug :: "bool own option"
  reverseProxyUrl :: "string own option"
  headers :: "(string \<rightharpoonup> string) option"
  titleConvo :: "bool option"
  titleModel :: "string option"
  titleMethod :: "string option"
  streamRate :: "int option"
  addParams :: "(string \<times> jsval) list option"
  dropParams :: "string list option"
  forcePrompt :: "bool option"
  azure :: "azure_field option"
  defaultQuery :: "(string \<rightharpoonup> string) option"
  model_parameters :: "addr option"
  modelOptions :: "addr own option"

text \<open>
  \<open>{ ...a, ...b }\<close>: a property of \<open>b\<close> wins over the same property of \<open>a\<close>, also
  when its value is \<open>undefined\<close> or \<open>null\<close> (\<open>Some Nullish\<close>). The function spreads
  \<open>endpointOption\<close> over its defaults only, which have none of the properties typed
  \<open>'a option\<close>: for those the result reads as \<open>endpointOption\<close> does.
\<close>

definition own_prop :: "'a option \<Rightarrow> 'a option \<Rightarrow> 'a option" where
  "own_prop b a = (case b of None \<Rightarrow> a | Some v \<Rightarrow> Some v)"

definition spread :: "options \<Rightarrow> options \<Rightarrow> options" where
  "spread a b =
     \<lparr> contextStrategy = own_prop (contextStrategy b) (contextStrategy a),
       proxy = own_prop (proxy b) (proxy a),
       debug = own_prop (debug b) (debug a),
       reverseProxyUrl = own_prop (reverseProxyUrl b) (reverseProxyUrl a),
       headers = own_prop (headers b) (headers a),
       titleConvo = own_prop (titleConvo b) (titleConvo a),
       titleModel = own_prop (titleModel b) (titleModel a),
       titleMethod = own_prop (titleMethod b) (titleMethod a),
       streamRate = own_prop (streamRate b) (streamRate a),
       addParams = own_prop (addParams b) (addParams a),
       dropParams = own_prop (dropParams b) (dropParams a),
       forcePrompt = own_prop (forcePrompt b) (forcePrompt a),
       azure = own_prop (azure b) (azure a),
       defaultQuery = own_prop (defaultQuery b) (defaultQuery a),
       model_parameters = own_prop (model_parameters b) (model_parameters a),
       modelOptions = own_prop (modelOptions b) (modelOptions a) \<rparr>"

definition no_options :: options where
  "no_options =
     \<lparr> contextStrategy = None, proxy = None, debug = None, reverseProxyUrl = None,
       headers = None, titleConvo = None, titleModel = None, titleMethod = None,
       streamRate = None, addParams = None, dropParams = None, forcePrompt = None,
       azure = None, defaultQuery = None, model_parameters = None, modelOptions = None \<rparr>"

section \<open>Errors, results and the helpers defined elsewhere\<close>

datatype config_error = UnknownModel | UnknownGroup

text \<open>
  What the function throws: \<open>Error msg\<close> is \<open>new Error(msg)\<close>, \<open>NoUserKey\<close> is the
  error whose message is the JSON of \<open>{ type: ErrorTypes.NO_USER_KEY }\<close>, \<open>TypeError\<close>
  is a property read or written on \<open>undefined\<close>, and \<open>ConfigError\<close> is what
  \<open>mapModelToAzureConfig\<close> throws.
\<close>

datatype error = Error string | NoUserKey | TypeError | ConfigError config_error

text \<open>The result of \<open>mapModelToAzureConfig\<close>. A \<open>serverless\<close> that is \<open>undefined\<close>
  reads as \<open>False\<close>: both \<open>!serverless\<close> and \<open>serverless === true\<close> agree on the two.\<close>

record mapped_azure =
  azureOptions :: azure_options
  baseURL :: "string option"
  mapped_headers :: "(string \<rightharpoonup> string) option"
  serverless :: bool

text \<open>
  The element of \<open>llmConfig.callbacks\<close>: an object whose one property,
  \<open>handleLLMNewToken\<close>, is the asynchronous closure over \<open>clientOptions\<close>. Calling it
  awaits \<open>sleep(clientOptions.streamRate)\<close> and does nothing else.
\<close>

datatype callback = ThrottleCallback options

datatype effect = Sleep "int option"

fun handleLLMNewToken :: "callback \<Rightarrow> effect list" where
  "handleLLMNewToken (ThrottleCallback clientOptions) = [Sleep (streamRate clientOptions)]"

text \<open>What \<open>getLLMConfig\<close> returns: \<open>llmConfig\<close>, of which the function assigns
  \<open>callbacks\<close>, and \<open>configOptions\<close>.\<close>

record llm_config =
  callbacks :: "callback list option"
  llm_fields :: "(string \<times> jsval) list"

record llm_options =
  llmConfig :: llm_config
  configOptions :: "(string \<times> jsval) list"

text \<open>\<open>new OpenAIClient(apiKey, Object.assign({ req, res }, clientOptions))\<close>: the
  client is the arguments it was constructed with.\<close>

record client =
  client_apiKey :: string
  client_req :: request
  client_options :: options

datatype result = OptionsOnly llm_options | ClientPair client string

text \<open>
  The functions \<open>initializeClient\<close> imports and calls. They are defined outside the
  files at hand and are parameters of the model: every theorem holds whatever they
  compute. Each sees its arguments only; \<open>getAzureCredentials\<close> reads the environment,
  \<open>getLLMConfig\<close> can read the objects its argument refers to.
\<close>

record externals =
  isEnabled :: "string option \<Rightarrow> bool"
  mapModelToAzureConfig ::
    "string option \<Rightarrow> (string \<rightharpoonup> model_entry) \<Rightarrow> (string \<rightharpoonup> group_config) \<Rightarrow> error + mapped_azure"
  resolveHeaders :: "(string \<rightharpoonup> string) \<Rightarrow> (string \<rightharpoonup> string)"
  getAzureCredentials :: "env \<Rightarrow> azure_options"
  getLLMConfig :: "string \<Rightarrow> options \<Rightarrow> heap \<Rightarrow> llm_options"

section \<open>initializeClient\<close>

text \<open>Lines 49 and 50: user-provided keys and URLs are switched off.\<close>

definition userProvidesKey :: bool where
  "userProvidesKey = False"

text \<open>Line 32: \<open>overrideModel ?? req.body.model\<close>.\<close>

definition modelName_of :: "request \<Rightarrow> string option \<Rightarrow> string option" where
  "modelName_of req overrideModel = nullish_opt overrideModel (body_model req)"

text \<open>Line 35: \<open>overrideEndpoint ?? req.body.endpoint ?? EModelEndpoint.openAI\<close>.\<close>

definition endpoint_of :: "request \<Rightarrow> string option \<Rightarrow> string" where
  "endpoint_of req overrideEndpoint =
     nullish overrideEndpoint (nullish (body_endpoint req) EModelEndpoint_openAI)"

text \<open>Lines 58 to 66: the defaults, then \<open>...endpointOption\<close> over them.\<close>

definition initialOptions :: "externals \<Rightarrow> env \<Rightarrow> options \<Rightarrow> options" where
  "initialOptions ext e endpointOption =
     (let baseURL0 = ''https://openrouter.ai/api/v1''
      in spread
           (no_options
              \<lparr> contextStrategy :=
                  Some (if isEnabled ext (OPENAI_SUMMARIZE e) then Value ''summarize''
                        else Nullish),
                proxy := Some (case PROXY e of Some p \<Rightarrow> Value p | None \<Rightarrow> Nullish),
                debug := Some (Value (isEnabled ext (DEBUG_OPENAI e))),
                reverseProxyUrl :=
                  Some (if baseURL0 \<noteq> [] then Value baseURL0 else Nullish) \<rparr>)
           endpointOption)"

text \<open>Line 86: the object handed to \<open>resolveHeaders\<close>,
  \<open>{ ...headers, ...(clientOptions.headers ?? {}) }\<close>, with \<open>headers = {}\<close> by default.\<close>

definition mergedHeaders :: "mapped_azure \<Rightarrow> options \<Rightarrow> (string \<rightharpoonup> string)" where
  "mergedHeaders mapped clientOptions =
     nullish (mapped_headers mapped) Map.empty ++ nullish (headers clientOptions) Map.empty"

text \<open>Lines 104 to 106: \<open>{ 'api-version': version }\<close> when the version is truthy.\<close>

definition versionQuery :: "string option \<Rightarrow> (string \<rightharpoonup> string) option" where
  "versionQuery version =
     (case version of
        None \<Rightarrow> None
      | Some v \<Rightarrow> if v \<noteq> [] then Some [''api-version'' \<mapsto> v] else None)"

text \<open>
  Lines 73 to 108, the branch \<open>isAzureOpenAI && azureConfig\<close>: the new
  \<open>clientOptions\<close> and \<open>apiKey\<close>. \<open>modelName.includes\<close> throws on a missing model
  name, \<open>modelGroupMap[modelName].group\<close> on a model without entry and
  \<open>groupMap[groupName].addParams\<close> on a group without entry. Assigning an undefined
  \<open>apiKey\<close> to \<open>headers['api-key']\<close> leaves the header without value (the function
  throws at line 137 then).
\<close>

definition azureOverrides ::
  "externals \<Rightarrow> azure_config \<Rightarrow> string option \<Rightarrow> options \<Rightarrow> error + (options \<times> string option)"
where
  "azureOverrides ext azureConfig modelName clientOptions =
     (case mapModelToAzureConfig ext modelName
             (az_modelGroupMap azureConfig) (az_groupMap azureConfig) of
        Inl e \<Rightarrow> Inl e
      | Inr mapped \<Rightarrow>
          (case modelName of
             None \<Rightarrow> Inl TypeError
           | Some name \<Rightarrow>
               (case az_modelGroupMap azureConfig name of
                  None \<Rightarrow> Inl TypeError
                | Some entry \<Rightarrow>
                    (case az_groupMap azureConfig (mg_group entry) of
                       None \<Rightarrow> Inl TypeError
                     | Some grp \<Rightarrow>
                         (let hdrs = resolveHeaders ext (mergedHeaders mapped clientOptions);
                              azureRate = (if str_includes name ''gpt-4'' then 30 else 17);
                              apiKey = azureOpenAIApiKey (azureOptions mapped);
                              co = clientOptions
                                \<lparr> reverseProxyUrl :=
                                    Some (case baseURL mapped of
                                            Some url \<Rightarrow> Value url
                                          | None \<Rightarrow>
                                              (case reverseProxyUrl clientOptions of
                                                 Some own \<Rightarrow> own
                                               | None \<Rightarrow> Nullish)),
                                  headers := Some hdrs,
                                  titleConvo := az_titleConvo azureConfig,
                                  titleModel := az_titleModel azureConfig,
                                  streamRate := Some (nullish (az_streamRate azureConfig) azureRate),
                                  titleMethod :=
                                    Some (nullish (az_titleMethod azureConfig) ''completion''),
                                  addParams := grp_addParams grp,
                                  dropParams := grp_dropParams grp,
                                  forcePrompt := grp_forcePrompt grp,
                                  azure :=
                                    Some (if serverless mapped then AzureFalse
                                          else AzureCredentials (azureOptions mapped)) \<rparr>
                          in if serverless mapped
                             then Inr (co \<lparr> defaultQuery :=
                                              versionQuery
                                                (azureOpenAIApiVersion (azureOptions mapped)),
                                            headers := Some (hdrs(''api-key'' := apiKey)) \<rparr>,
                                       apiKey)
                             else Inr (co, apiKey))))))"

text \<open>Lines 109 to 112, the branch of an Azure request with no Azure configuration.
  With user keys on, \<open>userValues.apiKey\<close> would read a property of \<open>null\<close>.\<close>

definition azureDefaults ::
  "externals \<Rightarrow> env \<Rightarrow> options \<Rightarrow> error + (options \<times> string option)"
where
  "azureDefaults ext e clientOptions =
     (if userProvidesKey then Inl TypeError
      else (let creds = getAzureCredentials ext e
            in Inr (clientOptions \<lparr> azure := Some (AzureCredentials creds) \<rparr>,
                    azureOpenAIApiKey creds)))"

text \<open>Lines 114 to 126: the application's configuration for the endpoint, then the one
  for all endpoints.\<close>

definition appOverrides :: "request \<Rightarrow> bool \<Rightarrow> options \<Rightarrow> options" where
  "appOverrides req isAzureOpenAI clientOptions =
     (let co1 =
            (case locals_openAI (locals req) of
               Some openAIConfig \<Rightarrow>
                 if \<not> isAzureOpenAI
                 then clientOptions \<lparr> streamRate := cfg_streamRate openAIConfig,
                                      titleModel := cfg_titleModel openAIConfig \<rparr>
                 else clientOptions
             | None \<Rightarrow> clientOptions)
      in case locals_all (locals req) of
           Some allConfig \<Rightarrow> co1 \<lparr> streamRate := cfg_streamRate allConfig \<rparr>
         | None \<Rightarrow> co1)"

text \<open>
  Lines 21 to 138: the credential and the merged \<open>clientOptions\<close>, or the error
  thrown. Nothing here reads \<open>userKeys\<close>: \<open>getUserKeyValues\<close> and
  \<open>checkUserKeyExpiry\<close> are imported and never called.
\<close>

definition resolveOptions ::
  "externals \<Rightarrow> server \<Rightarrow> request \<Rightarrow> options \<Rightarrow> string option \<Rightarrow> string option
     \<Rightarrow> error + (string \<times> options)"
where
  "resolveOptions ext srv req endpointOption overrideEndpoint overrideModel =
     (let e = process_env srv;
          modelName = modelName_of req overrideModel;
          endpoint = endpoint_of req overrideEndpoint;
          clientOptions = initialOptions ext e endpointOption;
          isAzureOpenAI = (endpoint = EModelEndpoint_azureOpenAI)
      in case (if isAzureOpenAI
               then (case locals_azureOpenAI (locals req) of
                       Some azureConfig \<Rightarrow> azureOverrides ext azureConfig modelName clientOptions
                     | None \<Rightarrow> azureDefaults ext e clientOptions)
               else Inr (clientOptions, OPENROUTER_KEY e)) of
           Inl err \<Rightarrow> Inl err
         | Inr (co, apiKey) \<Rightarrow>
             (let merged = appOverrides req isAzureOpenAI co
              in if userProvidesKey \<and> \<not> str_truthy apiKey then Inl NoUserKey
                 else (case apiKey of
                         None \<Rightarrow> Inl (Error (endpoint @ '' API Key not provided.''))
                       | Some k \<Rightarrow>
                           if k = [] then Inl (Error (endpoint @ '' API Key not provided.''))
                           else Inr (k, merged))))"

text \<open>
  Lines 140 to 157, options-only mode: the outcome and the heap after it.
  \<open>modelOptions.model = modelName\<close> writes to the object
  \<open>endpointOption.model_parameters\<close> refers to, and throws when there is none.
  \<open>Object.assign({ modelOptions }, clientOptions)\<close> keeps that reference unless
  \<open>clientOptions\<close> has a \<open>modelOptions\<close> property of its own, which replaces it.
  \<open>clientOptions.modelOptions.user = req.user.id\<close> writes to the object
  \<open>modelOptions\<close> refers to then, and throws when its value is \<open>undefined\<close> or
  \<open>null\<close>: this error is thrown after the write of the model name.
\<close>

definition optionsOnlyResult ::
  "externals \<Rightarrow> heap \<Rightarrow> request \<Rightarrow> options \<Rightarrow> string option \<Rightarrow> string \<Rightarrow> options
     \<Rightarrow> (error + result) \<times> heap"
where
  "optionsOnlyResult ext h req endpointOption modelName apiKey clientOptions =
     (case model_parameters endpointOption of
        None \<Rightarrow> (Inl TypeError, h)
      | Some a \<Rightarrow>
          (let h1 = assign_prop h a ''model'' (js_of_str modelName);
               assigned =
                 (case modelOptions clientOptions of Some own \<Rightarrow> own | None \<Rightarrow> Value a);
               clientOptions1 = clientOptions \<lparr> modelOptions := Some assigned \<rparr>
           in case assigned of
                Nullish \<Rightarrow> (Inl TypeError, h1)
              | Value target \<Rightarrow>
                  (let h2 = assign_prop h1 target ''user'' (JStr (user_id req));
                       opts = getLLMConfig ext apiKey clientOptions1 h2
                   in if \<not> num_truthy (streamRate clientOptions1)
                      then (Inr (OptionsOnly opts), h2)
                      else (Inr (OptionsOnly
                                   (opts \<lparr> llmConfig :=
                                             (llmConfig opts)
                                               \<lparr> callbacks :=
                                                   Some [ThrottleCallback clientOptions1] \<rparr> \<rparr>)),
                            h2))))"

text \<open>
  The function as a call: what it returns or throws, and the heap after the call. An
  error of lines 21 to 142 is thrown before any write.
\<close>

definition initializeClient_call ::
  "externals \<Rightarrow> server \<Rightarrow> heap \<Rightarrow> request \<Rightarrow> options \<Rightarrow> bool \<Rightarrow> string option \<Rightarrow> string option
     \<Rightarrow> (error + result) \<times> heap"
where
  "initializeClient_call ext srv h req endpointOption optionsOnly overrideEndpoint overrideModel =
     (case resolveOptions ext srv req endpointOption overrideEndpoint overrideModel of
        Inl err \<Rightarrow> (Inl err, h)
      | Inr (apiKey, clientOptions) \<Rightarrow>
          if optionsOnly
          then optionsOnlyResult ext h req endpointOption
                 (modelName_of req overrideModel) apiKey clientOptions
          else (Inr (ClientPair
                       \<lparr> client_apiKey = apiKey, client_req = req,
                         client_options = clientOptions \<rparr>
                       apiKey),
                h))"

text \<open>
  The function as its caller awaits it: the error thrown, or the result returned
  together with the heap the caller finds then.
\<close>

definition initializeClient ::
  "externals \<Rightarrow> server \<Rightarrow> heap \<Rightarrow> request \<Rightarrow> options \<Rightarrow> bool \<Rightarrow> string option \<Rightarrow> string option
     \<Rightarrow> error + (result \<times> heap)"
where
  "initializeClient ext srv h req endpointOption optionsOnly overrideEndpoint overrideModel =
     (case initializeClient_call ext srv h req endpointOption optionsOnly
             overrideEndpoint overrideModel of
        (Inl err, h') \<Rightarrow> Inl err
      | (Inr r, h') \<Rightarrow> Inr (r, h'))"

section \<open>The route PUT /keys\<close>

text \<open>
  \<open>req.body\<close> of \<open>PUT /keys\<close>: the provider name, the key and its expiry. The body is
  the parsed JSON of the request, so it can have other properties; \<open>userId\<close> is the one
  that \<open>{ userId: req.user.id, ...req.body }\<close> lets through to \<open>updateUserKey\<close>.
  \<open>kb_userId\<close> is \<open>None\<close> for a body without that property and \<open>Some v\<close> for a
  body that has it with the JSON value \<open>v\<close>, \<open>null\<close> included.
\<close>

record key_body =
  kb_userId :: "jsval option"
  kb_name :: string
  kb_value :: string
  kb_expiresAt :: "string option"

record response =
  status :: nat
  sent :: "jsval option"

text \<open>
  Modelled from the spec: \<open>updateUserKey\<close> is defined in \<open>services/UserService\<close>,
  outside the files at hand. The spec has it upsert the key record (key material and
  expiry) of the user and provider it is given.
\<close>

definition updateUserKey ::
  "jsval \<Rightarrow> string \<Rightarrow> string \<Rightarrow> string option \<Rightarrow> key_store \<Rightarrow> key_store"
where
  "updateUserKey userId name val expiresAt ks =
     ks((userId, name) \<mapsto> \<lparr> key_value = val, key_expiresAt = expiresAt \<rparr>)"

text \<open>
  Lines 6 to 13 of \<open>routes/keys.js\<close>, for a caller \<open>requireJwtAuth\<close> has let
  through: \<open>caller\<close> is \<open>req.user.id\<close>. The argument of \<open>updateUserKey\<close> is
  \<open>{ userId: req.user.id, ...req.body }\<close>: its \<open>userId\<close> is the body's when the body
  has that property, whatever its value, and the caller's otherwise.
\<close>

definition put_keys :: "server \<Rightarrow> string \<Rightarrow> key_body \<Rightarrow> response \<times> server" where
  "put_keys srv caller body =
     (if kb_name body = ''openAI''
      then (\<lparr> status = 403,
               sent = Some (JObj [(''error'',
                 JStr ''OpenAI API keys are managed by the system administrator'')]) \<rparr>,
            srv)
      else (\<lparr> status = 201, sent = None \<rparr>,
            srv \<lparr> userKeys :=
                    updateUserKey
                      (case kb_userId body of Some own \<Rightarrow> own | None \<Rightarrow> JStr caller)
                      (kb_name body) (kb_value body) (kb_expiresAt body) (userKeys srv) \<rparr>))"

section \<open>Example configuration\<close>

text \<open>
  Modelled from the spec: \<open>mapModelToAzureConfig\<close> is defined in
  librechat-data-provider, outside the files at hand. The spec has it fail with
  \<open>UnknownModel\<close> for a model without entry in \<open>modelGroupMap\<close>, fail with
  \<open>UnknownGroup\<close> for a group without entry in \<open>groupMap\<close>, and produce the Azure
  options, base URL, headers and serverless flag of the group otherwise.
\<close>

definition mapModelToAzureConfig_spec ::
  "string option \<Rightarrow> (string \<rightharpoonup> model_entry) \<Rightarrow> (string \<rightharpoonup> group_config) \<Rightarrow> error + mapped_azure"
where
  "mapModelToAzureConfig_spec modelName modelGroupMap groupMap =
     (case modelName of
        None \<Rightarrow> Inl (ConfigError UnknownModel)
      | Some name \<Rightarrow>
          (case modelGroupMap name of
             None \<Rightarrow> Inl (ConfigError UnknownModel)
           | Some entry \<Rightarrow>
               (case groupMap (mg_group entry) of
                  None \<Rightarrow> Inl (ConfigError UnknownGroup)
                | Some grp \<Rightarrow>
                    Inr \<lparr> azureOptions =
                            \<lparr> azureOpenAIApiKey = grp_apiKey grp,
                              azureOpenAIApiInstanceName = grp_instanceName grp,
                              azureOpenAIApiDeploymentName = grp_deploymentName grp,
                              azureOpenAIApiVersion = grp_version grp \<rparr>,
                          baseURL = grp_baseURL grp,
                          mapped_headers = grp_additionalHeaders grp,
                          serverless = grp_serverless grp \<rparr>)))"

text \<open>
  Modelled from the spec: \<open>isEnabled\<close>, \<open>resolveHeaders\<close>, \<open>getAzureCredentials\<close> and
  \<open>getLLMConfig\<close> are defined outside the files at hand, and the spec says no more of
  them than that flags are enabled or not, that the Azure defaults are process-wide and
  that options-only mode returns a configuration object. The examples take the flag
  \<open>true\<close> as enabled, leave headers as they are, read the Azure key from the
  environment and return a configuration that holds the key and has no callbacks.
\<close>

definition example_externals :: externals where
  "example_externals =
     \<lparr> isEnabled = (\<lambda>v. v = Some ''true''),
       mapModelToAzureConfig = mapModelToAzureConfig_spec,
       resolveHeaders = (\<lambda>hs. hs),
       getAzureCredentials =
         (\<lambda>e. \<lparr> azureOpenAIApiKey = AZURE_API_KEY e,
                 azureOpenAIApiInstanceName = None,
                 azureOpenAIApiDeploymentName = None,
                 azureOpenAIApiVersion = None \<rparr>),
       getLLMConfig =
         (\<lambda>apiKey clientOptions h.
            \<lparr> llmConfig = \<lparr> callbacks = None, llm_fields = [(''apiKey'', JStr apiKey)] \<rparr>,
              configOptions = [] \<rparr>) \<rparr>"

definition example_env :: env where
  "example_env =
     \<lparr> PROXY = None, OPENAI_API_KEY = None, AZURE_API_KEY = None,
       OPENAI_REVERSE_PROXY = None, AZURE_OPENAI_BASEURL = None,
       OPENAI_SUMMARIZE = None, DEBUG_OPENAI = None,
       OPENROUTER_KEY = Some ''relay-key'' \<rparr>"

definition example_server :: server where
  "example_server = \<lparr> process_env = example_env, userKeys = Map.empty \<rparr>"

text \<open>Group \<open>g1\<close> has credentials and a header; groups \<open>g2\<close> and \<open>g3\<close> are
  serverless, \<open>g3\<close> without API version.\<close>

definition example_g1 :: group_config where
  "example_g1 =
     \<lparr> grp_apiKey = Some ''key-g1'', grp_instanceName = Some ''instance-g1'',
       grp_deploymentName = Some ''deployment-g1'', grp_version = Some ''2024-02-01'',
       grp_baseURL = None, grp_additionalHeaders = Some [''x-source'' \<mapsto> ''azure''],
       grp_serverless = False, grp_addParams = None, grp_dropParams = None,
       grp_forcePrompt = None, grp_streamRate = None \<rparr>"

definition example_g2 :: group_config where
  "example_g2 =
     \<lparr> grp_apiKey = Some ''key-g2'', grp_instanceName = None,
       grp_deploymentName = None, grp_version = Some ''2024-05-01'',
       grp_baseURL = Some ''https://g2.example/v1'', grp_additionalHeaders = None,
       grp_serverless = True, grp_addParams = None, grp_dropParams = None,
       grp_forcePrompt = None, grp_streamRate = None \<rparr>"

definition example_g3 :: group_config where
  "example_g3 =
     \<lparr> grp_apiKey = Some ''key-g3'', grp_instanceName = None,
       grp_deploymentName = None, grp_version = None,
       grp_baseURL = Some ''https://g3.example/v1'', grp_additionalHeaders = None,
       grp_serverless = True, grp_addParams = None, grp_dropParams = None,
       grp_forcePrompt = None, grp_streamRate = None \<rparr>"

definition example_azureConfig :: azure_config where
  "example_azureConfig =
     \<lparr> az_modelGroupMap =
         [''gpt-4-turbo'' \<mapsto> \<lparr> mg_group = ''g1'' \<rparr>,
          ''GPT-4-custom'' \<mapsto> \<lparr> mg_group = ''g1'' \<rparr>,
          ''mistral-large'' \<mapsto> \<lparr> mg_group = ''g2'' \<rparr>,
          ''phi-3'' \<mapsto> \<lparr> mg_group = ''g3'' \<rparr>],
       az_groupMap =
         [''g1'' \<mapsto> example_g1, ''g2'' \<mapsto> example_g2, ''g3'' \<mapsto> example_g3],
       az_titleConvo = None, az_titleModel = None, az_titleMethod = None,
       az_streamRate = None \<rparr>"

definition example_locals :: app_locals where
  "example_locals =
     \<lparr> locals_azureOpenAI = Some example_azureConfig,
       locals_openAI = None,
       locals_all = None \<rparr>"

text \<open>A request for model \<open>gpt-4-turbo\<close> on the Azure endpoint, by user \<open>alice\<close>.\<close>

definition example_request :: request where
  "example_request =
     \<lparr> body_key = None, body_model = Some ''gpt-4-turbo'',
       body_endpoint = Some ''azureOpenAI'', locals = example_locals,
       user_id = ''alice'' \<rparr>"

definition example_heap :: heap where
  "example_heap = (\<lambda>a. Map.empty)"

text \<open>The application configuration with a stream rate at every layer: 7 for Azure, 9
  for the endpoint, 11 for all endpoints.\<close>

definition four_layer_locals :: app_locals where
  "four_layer_locals =
     \<lparr> locals_azureOpenAI = Some (example_azureConfig \<lparr> az_streamRate := Some 7 \<rparr>),
       locals_openAI = Some \<lparr> cfg_streamRate = Some 9, cfg_titleModel = None \<rparr>,
       locals_all = Some \<lparr> cfg_streamRate = Some 11, cfg_titleModel = None \<rparr> \<rparr>"

text \<open>A server whose relay key is not set, and a request that names no endpoint.\<close>

definition no_key_server :: server where
  "no_key_server =
     \<lparr> process_env = example_env \<lparr> OPENROUTER_KEY := None \<rparr>, userKeys = Map.empty \<rparr>"

definition default_request :: request where
  "default_request = example_request \<lparr> body_endpoint := None \<rparr>"

text \<open>The application configuration with a configuration for all endpoints that gives
  no stream rate.\<close>

definition all_without_rate_locals :: app_locals where
  "all_without_rate_locals =
     example_locals \<lparr> locals_all := Some \<lparr> cfg_streamRate = None, cfg_titleModel = None \<rparr> \<rparr>"

text \<open>The application configuration with stream rate 0 for all endpoints.\<close>

definition zero_rate_locals :: app_locals where
  "zero_rate_locals =
     example_locals \<lparr> locals_all := Some \<lparr> cfg_streamRate = Some 0, cfg_titleModel = None \<rparr> \<rparr>"

text \<open>The application configuration whose Azure configuration gives the stream rate 50;
  its groups give none.\<close>

definition azure_rate_locals :: app_locals where
  "azure_rate_locals =
     example_locals
       \<lparr> locals_azureOpenAI := Some (example_azureConfig \<lparr> az_streamRate := Some 50 \<rparr>) \<rparr>"

section \<open>Lemmas about the model\<close>

text \<open>The definitions to unfold when the model is run on an example.\<close>

lemmas example_defs =
  example_externals_def example_server_def example_env_def example_request_def
  example_locals_def example_azureConfig_def example_g1_def example_g2_def example_g3_def
  mapModelToAzureConfig_spec_def example_heap_def

lemmas model_defs =
  resolveOptions_def initializeClient_def initializeClient_call_def azureOverrides_def
  azureDefaults_def
  appOverrides_def initialOptions_def optionsOnlyResult_def mergedHeaders_def
  versionQuery_def modelName_of_def endpoint_of_def userProvidesKey_def spread_def
  no_options_def own_prop_def nullish_def nullish_opt_def str_truthy_def num_truthy_def
  EModelEndpoint_openAI_def EModelEndpoint_azureOpenAI_def js_of_str_def assign_prop_def
  Let_def

subsection \<open>Substring containment\<close>

lemma starts_with_prefix: "starts_with s p \<longleftrightarrow> prefix p s"
  by (induction s p rule: starts_with.induct) auto

text \<open>\<open>str_includes\<close> is containment as a contiguous sublist, character by character.\<close>

lemma str_includes_sublist: "str_includes s p \<longleftrightarrow> sublist p s"
  by (induction s) (auto simp: starts_with_prefix sublist_Cons_right)

subsection \<open>The application overrides\<close>

lemma appOverrides_all:
  "locals_all (locals req) = Some allConfig \<Longrightarrow>
   streamRate (appOverrides req isAz co) = cfg_streamRate allConfig"
  by (simp add: appOverrides_def Let_def split: option.splits)

lemma appOverrides_azure_no_all:
  "locals_all (locals req) = None \<Longrightarrow> streamRate (appOverrides req True co) = streamRate co"
  by (simp add: appOverrides_def Let_def split: option.splits)

lemma appOverrides_frame:
  "headers (appOverrides req isAz co) = headers co"
  "azure (appOverrides req isAz co) = azure co"
  "defaultQuery (appOverrides req isAz co) = defaultQuery co"
  "modelOptions (appOverrides req isAz co) = modelOptions co"
  "model_parameters (appOverrides req isAz co) = model_parameters co"
  by (simp_all add: appOverrides_def Let_def split: option.splits)

subsection \<open>What a successful resolution went through\<close>

lemma resolveOptions_key:
  "resolveOptions ext srv req eo oe om = Inr (k, co) \<Longrightarrow> k \<noteq> []"
  by (auto simp: resolveOptions_def Let_def
      split: sum.splits if_splits option.splits prod.splits)

lemma resolveOptions_merged:
  assumes "resolveOptions ext srv req eo oe om = Inr (k, co)"
  shows "\<exists>co1. co = appOverrides req (endpoint_of req oe = EModelEndpoint_azureOpenAI) co1"
  using assms
  by (auto simp: resolveOptions_def Let_def
      split: sum.splits if_splits option.splits prod.splits)

lemma resolveOptions_relay:
  assumes "endpoint_of req oe \<noteq> EModelEndpoint_azureOpenAI"
  shows "resolveOptions ext srv req eo oe om =
     (if str_truthy (OPENROUTER_KEY (process_env srv))
      then Inr (nullish (OPENROUTER_KEY (process_env srv)) [],
                appOverrides req False (initialOptions ext (process_env srv) eo))
      else Inl (Error (endpoint_of req oe @ '' API Key not provided.'')))"
  using assms
  by (auto simp: resolveOptions_def Let_def userProvidesKey_def str_truthy_def nullish_def
      split: option.splits)

lemma resolveOptions_azure:
  assumes "endpoint_of req oe = EModelEndpoint_azureOpenAI"
    and "locals_azureOpenAI (locals req) = Some az"
    and "resolveOptions ext srv req eo oe om = Inr (k, co)"
  shows "\<exists>co1. azureOverrides ext az (modelName_of req om)
                 (initialOptions ext (process_env srv) eo) = Inr (co1, Some k)
             \<and> co = appOverrides req True co1"
  using assms
  by (auto simp: resolveOptions_def Let_def userProvidesKey_def
      split: sum.splits option.splits if_splits)

lemma azureOverrides_Inr:
  assumes "azureOverrides ext az mn co0 = Inr (co, k)"
  shows "\<exists>mapped name.
           mapModelToAzureConfig ext mn (az_modelGroupMap az) (az_groupMap az) = Inr mapped
         \<and> mn = Some name"
  using assms
  by (simp add: azureOverrides_def split: sum.splits option.splits)

lemma azureOverrides_fields:
  assumes "azureOverrides ext az (Some name) co0 = Inr (co, k)"
    and "mapModelToAzureConfig ext (Some name) (az_modelGroupMap az) (az_groupMap az) = Inr mapped"
  shows "k = azureOpenAIApiKey (azureOptions mapped)"
    and "streamRate co =
           Some (nullish (az_streamRate az) (if str_includes name ''gpt-4'' then 30 else 17))"
    and "azure co = Some (if serverless mapped then AzureFalse
                          else AzureCredentials (azureOptions mapped))"
    and "headers co =
           Some (if serverless mapped
                 then (resolveHeaders ext (mergedHeaders mapped co0))(''api-key'' := k)
                 else resolveHeaders ext (mergedHeaders mapped co0))"
    and "defaultQuery co =
           (if serverless mapped
            then versionQuery (azureOpenAIApiVersion (azureOptions mapped))
            else defaultQuery co0)"
    and "modelOptions co = modelOptions co0"
    and "model_parameters co = model_parameters co0"
  using assms
  by (auto simp: azureOverrides_def Let_def split: option.splits if_splits)

subsection \<open>What the request's options keep\<close>

lemma initialOptions_request_props:
  "headers (initialOptions ext e eo) = headers eo"
  "modelOptions (initialOptions ext e eo) = modelOptions eo"
  "model_parameters (initialOptions ext e eo) = model_parameters eo"
  by (simp_all add: initialOptions_def spread_def no_options_def own_prop_def Let_def
      split: option.splits)

lemma resolveOptions_azure_defaults:
  assumes "endpoint_of req oe = EModelEndpoint_azureOpenAI"
    and "locals_azureOpenAI (locals req) = None"
    and "resolveOptions ext srv req eo oe om = Inr (k, co)"
  shows "co = appOverrides req True
                ((initialOptions ext (process_env srv) eo)
                   \<lparr> azure := Some (AzureCredentials
                                      (getAzureCredentials ext (process_env srv))) \<rparr>)"
  using assms
  by (auto simp: resolveOptions_def azureDefaults_def Let_def userProvidesKey_def
      split: sum.splits option.splits if_splits)

lemma resolveOptions_refs:
  assumes "resolveOptions ext srv req eo oe om = Inr (k, co)"
  shows "modelOptions co = modelOptions eo \<and> model_parameters co = model_parameters eo"
proof (cases "endpoint_of req oe = EModelEndpoint_azureOpenAI")
  case False
  with assms show ?thesis
    by (auto simp: resolveOptions_relay appOverrides_frame initialOptions_request_props
        split: if_splits)
next
  case True
  show ?thesis
  proof (cases "locals_azureOpenAI (locals req)")
    case None
    from resolveOptions_azure_defaults [OF True None assms] show ?thesis
      by (simp add: appOverrides_frame initialOptions_request_props)
  next
    case (Some az)
    from resolveOptions_azure [OF True Some assms] obtain co1 where
      d: "azureOverrides ext az (modelName_of req om)
            (initialOptions ext (process_env srv) eo) = Inr (co1, Some k)"
      and co: "co = appOverrides req True co1"
      by blast
    from azureOverrides_Inr [OF d] obtain mapped name where
      m: "mapModelToAzureConfig ext (modelName_of req om)
            (az_modelGroupMap az) (az_groupMap az) = Inr mapped"
      and n: "modelName_of req om = Some name"
      by blast
    note f = azureOverrides_fields [OF d [unfolded n] m [unfolded n]]
    from f(6,7) co show ?thesis
      by (simp add: appOverrides_frame initialOptions_request_props)
  qed
qed

subsection \<open>Options-only mode\<close>

lemma assign_prop_same: "assign_prop h a p v a p = Some v"
  by (simp add: assign_prop_def)

lemma assign_prop_other_prop: "q \<noteq> p \<Longrightarrow> assign_prop h a p v b q = h b q"
  by (simp add: assign_prop_def)

lemma assign_prop_other_addr: "b \<noteq> a \<Longrightarrow> assign_prop h a p v b = h b"
  by (simp add: assign_prop_def)

lemma initializeClient_Inr:
  "initializeClient ext srv h req eo oo oe om = Inr (r, h')
     \<longleftrightarrow> initializeClient_call ext srv h req eo oo oe om = (Inr r, h')"
  by (auto simp: initializeClient_def split: prod.splits sum.splits)

lemma optionsOnlyResult_Value:
  assumes "model_parameters eo = Some a"
    and "(case modelOptions co of Some own \<Rightarrow> own | None \<Rightarrow> Value a) = Value target"
  shows "optionsOnlyResult ext h req eo mn apiKey co =
     (Inr (OptionsOnly
            (if \<not> num_truthy (streamRate co)
             then getLLMConfig ext apiKey (co \<lparr> modelOptions := Some (Value target) \<rparr>)
                    (assign_prop (assign_prop h a ''model'' (js_of_str mn))
                       target ''user'' (JStr (user_id req)))
             else (getLLMConfig ext apiKey (co \<lparr> modelOptions := Some (Value target) \<rparr>)
                    (assign_prop (assign_prop h a ''model'' (js_of_str mn))
                       target ''user'' (JStr (user_id req))))
                  \<lparr> llmConfig :=
                      (llmConfig (getLLMConfig ext apiKey
                         (co \<lparr> modelOptions := Some (Value target) \<rparr>)
                         (assign_prop (assign_prop h a ''model'' (js_of_str mn))
                            target ''user'' (JStr (user_id req)))))
                        \<lparr> callbacks :=
                            Some [ThrottleCallback
                              (co \<lparr> modelOptions := Some (Value target) \<rparr>)] \<rparr> \<rparr>)),
      assign_prop (assign_prop h a ''model'' (js_of_str mn))
        target ''user'' (JStr (user_id req)))"
  using assms by (simp add: optionsOnlyResult_def Let_def)

lemma optionsOnlyResult_Nullish:
  assumes "model_parameters eo = Some a"
    and "modelOptions co = Some Nullish"
  shows "optionsOnlyResult ext h req eo mn apiKey co =
     (Inl TypeError, assign_prop h a ''model'' (js_of_str mn))"
  using assms by (simp add: optionsOnlyResult_def Let_def)

lemma optionsOnly_result:
  assumes "initializeClient ext srv h req eo True oe om = Inr (r, h')"
  shows "\<exists>apiKey co a target.
           resolveOptions ext srv req eo oe om = Inr (apiKey, co)
         \<and> model_parameters eo = Some a
         \<and> (case modelOptions co of Some own \<Rightarrow> own | None \<Rightarrow> Value a) = Value target
         \<and> optionsOnlyResult ext h req eo (modelName_of req om) apiKey co = (Inr r, h')"
proof -
  from assms have "initializeClient_call ext srv h req eo True oe om = (Inr r, h')"
    by (simp add: initializeClient_Inr)
  then obtain apiKey co where
    ro: "resolveOptions ext srv req eo oe om = Inr (apiKey, co)"
    and o: "optionsOnlyResult ext h req eo (modelName_of req om) apiKey co = (Inr r, h')"
    by (auto simp: initializeClient_call_def split: sum.splits)
  from o obtain a where a: "model_parameters eo = Some a"
    by (auto simp: optionsOnlyResult_def split: option.splits)
  from o a obtain target where
    "(case modelOptions co of Some own \<Rightarrow> own | None \<Rightarrow> Value a) = Value target"
    by (cases "case modelOptions co of Some own \<Rightarrow> own | None \<Rightarrow> Value a")
       (simp_all add: optionsOnlyResult_def Let_def)
  with ro a o show ?thesis by blast
qed

section \<open>Merge precedence of the stream rate\<close>

text \<open>
  Claim C1. When the application has a configuration for all endpoints and that
  configuration gives a stream rate, the merged options have that stream rate, whatever
  the request's endpoint options, the Azure configuration and the endpoint's
  configuration give: in the options \<open>resolveOptions\<close> returns, and in the options the
  client is constructed with.
\<close>

theorem all_endpoints_streamRate_wins:
  assumes "locals_all (locals req) = Some allConfig"
    and "cfg_streamRate allConfig = Some g"
  shows "(resolveOptions ext srv req endpointOption overrideEndpoint overrideModel = Inr (k, co)
            \<longrightarrow> streamRate co = Some g)
       \<and> (initializeClient ext srv h req endpointOption False overrideEndpoint overrideModel
              = Inr (ClientPair c k', h')
            \<longrightarrow> streamRate (client_options c) = Some g)"
proof (intro conjI impI)
  assume r: "resolveOptions ext srv req endpointOption overrideEndpoint overrideModel = Inr (k, co)"
  from resolveOptions_merged [OF r] assms show "streamRate co = Some g"
    by (auto simp: appOverrides_all)
next
  assume i: "initializeClient ext srv h req endpointOption False overrideEndpoint overrideModel
               = Inr (ClientPair c k', h')"
  then have "resolveOptions ext srv req endpointOption overrideEndpoint overrideModel
               = Inr (k', client_options c)"
    by (auto simp: initializeClient_Inr initializeClient_call_def split: sum.splits prod.splits)
  from resolveOptions_merged [OF this] assms show "streamRate (client_options c) = Some g"
    by (auto simp: appOverrides_all)
qed

text \<open>With rate 5 in the request's options, 7 for Azure, 9 for the endpoint and 11 for
  all endpoints, the merged rate is 11 on the Azure path and on the default path.\<close>

theorem all_endpoints_streamRate_wins_witness:
  "(case resolveOptions example_externals example_server
           (example_request \<lparr> locals := four_layer_locals \<rparr>)
           (no_options \<lparr> streamRate := Some 5 \<rparr>) None None of
      Inr (k, co) \<Rightarrow> streamRate co = Some 11
    | Inl err \<Rightarrow> False)
   \<and> (case resolveOptions example_externals example_server
           (example_request \<lparr> locals := four_layer_locals \<rparr>)
           (no_options \<lparr> streamRate := Some 5 \<rparr>) (Some ''openAI'') None of
      Inr (k, co) \<Rightarrow> streamRate co = Some 11
    | Inl err \<Rightarrow> False)"
proof -
  let ?req = "example_request \<lparr> locals := four_layer_locals \<rparr>"
  let ?eo = "no_options \<lparr> streamRate := Some 5 \<rparr>"
  have a: "locals_all (locals ?req) = Some \<lparr> cfg_streamRate = Some 11, cfg_titleModel = None \<rparr>"
    by (simp add: four_layer_locals_def)
  have b: "cfg_streamRate \<lparr> cfg_streamRate = Some 11, cfg_titleModel = None \<rparr> = Some 11"
    by simp
  obtain k co where
    r: "resolveOptions example_externals example_server ?req ?eo None None = Inr (k, co)"
    by (simp add: model_defs example_defs four_layer_locals_def)
  obtain k2 co2 where
    r2: "resolveOptions example_externals example_server ?req ?eo (Some ''openAI'') None
           = Inr (k2, co2)"
    by (simp add: model_defs example_defs four_layer_locals_def)
  from all_endpoints_streamRate_wins
         [OF a b, of example_externals example_server ?eo None None k co]
       all_endpoints_streamRate_wins
         [OF a b, of example_externals example_server ?eo "Some ''openAI''" None k2 co2]
       r r2
  show ?thesis by simp
qed

section \<open>The default stream rate of the Azure path\<close>

text \<open>
  Claim C2, as stated, fails: the explicit rate is read from the Azure configuration
  (\<open>azureConfig.streamRate\<close>), not from the group. With rate 50 in the Azure
  configuration and none in group \<open>g1\<close>, model \<open>gpt-4-turbo\<close> of \<open>g1\<close> gets the rate
  50, not 30.
\<close>

theorem azure_group_without_rate_counterexample:
  "(case az_modelGroupMap example_azureConfig ''gpt-4-turbo'' of
      Some entry \<Rightarrow>
        mg_group entry = ''g1''
        \<and> (case az_groupMap example_azureConfig (mg_group entry) of
             Some grp \<Rightarrow> grp_streamRate grp = None
           | None \<Rightarrow> False)
    | None \<Rightarrow> False)
   \<and> str_includes ''gpt-4-turbo'' ''gpt-4''
   \<and> (case resolveOptions example_externals example_server
             (example_request \<lparr> locals := azure_rate_locals \<rparr>) no_options None None of
        Inr (k, co) \<Rightarrow> streamRate co = Some 50 \<and> streamRate co \<noteq> Some 30
      | Inl err \<Rightarrow> False)"
  by (simp add: model_defs example_defs azure_rate_locals_def)

text \<open>
  Claim C2, amended. For a request on the Azure endpoint whose Azure configuration
  gives no stream rate and whose resolution succeeds, the stream rate the Azure branch
  derives is 30 when the model name contains \<open>gpt-4\<close> as a contiguous run of
  characters and 17 otherwise; with no configuration for all endpoints this is the
  stream rate of the merged options.
\<close>

theorem azure_default_streamRate:
  assumes "endpoint_of req overrideEndpoint = EModelEndpoint_azureOpenAI"
    and "locals_azureOpenAI (locals req) = Some azureConfig"
    and "az_streamRate azureConfig = None"
    and "resolveOptions ext srv req endpointOption overrideEndpoint overrideModel = Inr (k, co)"
  shows "\<exists>name derived.
           modelName_of req overrideModel = Some name
         \<and> azureOverrides ext azureConfig (Some name)
               (initialOptions ext (process_env srv) endpointOption) = Inr (derived, Some k)
         \<and> streamRate derived = Some (if sublist ''gpt-4'' name then 30 else 17)
         \<and> (locals_all (locals req) = None \<longrightarrow> streamRate co = streamRate derived)"
proof -
  from resolveOptions_azure [OF assms(1,2,4)] obtain derived where
    d: "azureOverrides ext azureConfig (modelName_of req overrideModel)
          (initialOptions ext (process_env srv) endpointOption) = Inr (derived, Some k)"
    and co: "co = appOverrides req True derived"
    by blast
  from azureOverrides_Inr [OF d] obtain mapped name where
    m: "mapModelToAzureConfig ext (modelName_of req overrideModel)
          (az_modelGroupMap azureConfig) (az_groupMap azureConfig) = Inr mapped"
    and n: "modelName_of req overrideModel = Some name"
    by blast
  from azureOverrides_fields(2) [OF d [unfolded n] m [unfolded n]] assms(3)
  have "streamRate derived = Some (if sublist ''gpt-4'' name then 30 else 17)"
    by (simp add: nullish_def str_includes_sublist)
  with d n co show ?thesis
    by (auto simp: appOverrides_azure_no_all)
qed

text \<open>Model \<open>gpt-4-turbo\<close> of group \<open>g1\<close> gets rate 30; model \<open>GPT-4-custom\<close> of the
  same group gets 17, the match being case-sensitive.\<close>

theorem azure_default_streamRate_witness:
  "(case resolveOptions example_externals example_server example_request no_options None None of
      Inr (k, co) \<Rightarrow> streamRate co = Some 30
    | Inl err \<Rightarrow> False)
   \<and> (case resolveOptions example_externals example_server example_request no_options
           None (Some ''GPT-4-custom'') of
      Inr (k, co) \<Rightarrow> streamRate co = Some 17
    | Inl err \<Rightarrow> False)"
proof -
  have a: "endpoint_of example_request None = EModelEndpoint_azureOpenAI"
    by (simp add: model_defs example_defs)
  have b: "locals_azureOpenAI (locals example_request) = Some example_azureConfig"
    by (simp add: example_defs)
  have c: "az_streamRate example_azureConfig = None"
    by (simp add: example_defs)
  have n: "locals_all (locals example_request) = None"
    by (simp add: example_defs)
  obtain k co where r: "resolveOptions example_externals example_server example_request
      no_options None None = Inr (k, co)"
    by (simp add: model_defs example_defs)
  obtain k2 co2 where r2: "resolveOptions example_externals example_server example_request
      no_options None (Some ''GPT-4-custom'') = Inr (k2, co2)"
    by (simp add: model_defs example_defs)
  have s1: "sublist ''gpt-4'' ''gpt-4-turbo''"
    by (simp add: str_includes_sublist [symmetric])
  have s2: "\<not> sublist ''gpt-4'' ''GPT-4-custom''"
    by (simp add: str_includes_sublist [symmetric])
  from azure_default_streamRate [OF a b c r] n s1
  have "streamRate co = Some 30"
    by (auto simp: modelName_of_def nullish_opt_def example_request_def)
  moreover from azure_default_streamRate [OF a b c r2] n s2
  have "streamRate co2 = Some 17"
    by (auto simp: modelName_of_def nullish_opt_def)
  ultimately show ?thesis using r r2 by simp
qed

section \<open>A missing relay key\<close>

text \<open>
  Claim C3. A request on an endpoint other than Azure (the default endpoint among
  them), with the relay key unset or empty, fails with the error whose message is the
  endpoint's name followed by \<open>API Key not provided.\<close>, whatever the other keys of the
  environment are. And whenever \<open>initializeClient\<close> returns, the key it resolved is not
  the empty string; in full-client mode that key is the one returned and the one the
  client is constructed with.
\<close>

theorem missing_relay_key_fails:
  "(endpoint_of req overrideEndpoint \<noteq> EModelEndpoint_azureOpenAI
      \<longrightarrow> \<not> str_truthy (OPENROUTER_KEY (process_env srv))
      \<longrightarrow> initializeClient ext srv h req endpointOption optionsOnly overrideEndpoint overrideModel
            = Inl (Error (endpoint_of req overrideEndpoint @ '' API Key not provided.'')))
   \<and> (initializeClient ext srv h req endpointOption optionsOnly overrideEndpoint overrideModel
         = Inr (r, h')
      \<longrightarrow> (\<exists>apiKey co.
             resolveOptions ext srv req endpointOption overrideEndpoint overrideModel
               = Inr (apiKey, co)
           \<and> apiKey \<noteq> []
           \<and> (\<forall>c k. r = ClientPair c k \<longrightarrow> k = apiKey \<and> client_apiKey c = apiKey)))"
proof (intro conjI impI)
  assume "endpoint_of req overrideEndpoint \<noteq> EModelEndpoint_azureOpenAI"
    and "\<not> str_truthy (OPENROUTER_KEY (process_env srv))"
  then show "initializeClient ext srv h req endpointOption optionsOnly overrideEndpoint overrideModel
      = Inl (Error (endpoint_of req overrideEndpoint @ '' API Key not provided.''))"
    by (simp add: initializeClient_def initializeClient_call_def resolveOptions_relay)
next
  assume i: "initializeClient ext srv h req endpointOption optionsOnly overrideEndpoint overrideModel
      = Inr (r, h')"
  then obtain apiKey co where
    ro: "resolveOptions ext srv req endpointOption overrideEndpoint overrideModel = Inr (apiKey, co)"
    by (auto simp: initializeClient_Inr initializeClient_call_def split: sum.splits)
  have "\<forall>c k. r = ClientPair c k \<longrightarrow> k = apiKey \<and> client_apiKey c = apiKey"
  proof (cases optionsOnly)
    case True
    with i have "initializeClient ext srv h req endpointOption True overrideEndpoint overrideModel
        = Inr (r, h')"
      by simp
    from optionsOnly_result [OF this] obtain apiKey' co' a target where
      a: "model_parameters endpointOption = Some a"
      and t: "(case modelOptions co' of Some own \<Rightarrow> own | None \<Rightarrow> Value a) = Value target"
      and o: "optionsOnlyResult ext h req endpointOption (modelName_of req overrideModel)
                apiKey' co' = (Inr r, h')"
      by blast
    from o have "\<exists>opts. r = OptionsOnly opts"
      unfolding optionsOnlyResult_Value [OF a t] by auto
    then show ?thesis by auto
  next
    case False
    with i ro show ?thesis
      by (auto simp: initializeClient_Inr initializeClient_call_def)
  qed
  with ro resolveOptions_key [OF ro]
  show "\<exists>apiKey co.
      resolveOptions ext srv req endpointOption overrideEndpoint overrideModel = Inr (apiKey, co)
      \<and> apiKey \<noteq> []
      \<and> (\<forall>c k. r = ClientPair c k \<longrightarrow> k = apiKey \<and> client_apiKey c = apiKey)"
    by blast
qed

text \<open>With no relay key the default endpoint fails, naming \<open>openAI\<close>; with the relay
  key set, the client is returned with that key.\<close>

theorem missing_relay_key_fails_witness:
  "initializeClient example_externals no_key_server example_heap default_request no_options
     False None None = Inl (Error ''openAI API Key not provided.'')
   \<and> (case initializeClient example_externals example_server example_heap default_request
            no_options False None None of
        Inr (ClientPair c k, h') \<Rightarrow> k = ''relay-key'' \<and> client_apiKey c = ''relay-key''
      | _ \<Rightarrow> False)"
proof -
  have a: "endpoint_of default_request None \<noteq> EModelEndpoint_azureOpenAI"
    by (simp add: model_defs example_defs default_request_def)
  have b: "\<not> str_truthy (OPENROUTER_KEY (process_env no_key_server))"
    by (simp add: no_key_server_def str_truthy_def)
  have e: "endpoint_of default_request None = ''openAI''"
    by (simp add: model_defs example_defs default_request_def)
  obtain c k h' where
    i: "initializeClient example_externals example_server example_heap default_request
          no_options False None None = Inr (ClientPair c k, h')"
    by (simp add: model_defs example_defs default_request_def)
  have ro: "\<exists>co. resolveOptions example_externals example_server default_request no_options
          None None = Inr (''relay-key'', co)"
    by (simp add: model_defs example_defs default_request_def)
  from missing_relay_key_fails
         [of default_request None no_key_server example_externals example_heap no_options False]
       a b e
  have "initializeClient example_externals no_key_server example_heap default_request no_options
     False None None = Inl (Error ''openAI API Key not provided.'')"
    by simp
  moreover from missing_relay_key_fails
         [of default_request None example_server example_externals example_heap no_options False
             None "ClientPair c k" h'] i ro
  have "k = ''relay-key'' \<and> client_apiKey c = ''relay-key''"
    by auto
  ultimately show ?thesis using i by simp
qed

section \<open>The relay key and the key store\<close>

text \<open>
  Claim C7. The result of \<open>initializeClient\<close> does not depend on the key store: it is
  the same for any two contents of \<open>userKeys\<close>, and the same before and after a
  \<open>PUT /keys\<close> request. On an endpoint other than Azure, the credential of a successful
  resolution is the relay key of the process environment.
\<close>

theorem relay_key_ignores_user_keys:
  "initializeClient ext (srv \<lparr> userKeys := ks \<rparr>) h req endpointOption optionsOnly
       overrideEndpoint overrideModel
     = initializeClient ext srv h req endpointOption optionsOnly overrideEndpoint overrideModel
   \<and> initializeClient ext (snd (put_keys srv caller body)) h req endpointOption optionsOnly
       overrideEndpoint overrideModel
     = initializeClient ext srv h req endpointOption optionsOnly overrideEndpoint overrideModel
   \<and> (endpoint_of req overrideEndpoint \<noteq> EModelEndpoint_azureOpenAI
        \<longrightarrow> resolveOptions ext (srv \<lparr> userKeys := ks \<rparr>) req endpointOption overrideEndpoint
              overrideModel = Inr (k, co)
        \<longrightarrow> OPENROUTER_KEY (process_env srv) = Some k)"
proof -
  have u: "resolveOptions ext (srv \<lparr> userKeys := ks' \<rparr>) req endpointOption overrideEndpoint
             overrideModel
           = resolveOptions ext srv req endpointOption overrideEndpoint overrideModel" for ks'
    by (simp add: resolveOptions_def)
  have p: "snd (put_keys srv caller body) = srv \<or>
           (\<exists>ks'. snd (put_keys srv caller body) = srv \<lparr> userKeys := ks' \<rparr>)"
    by (auto simp: put_keys_def)
  have i: "initializeClient ext (srv \<lparr> userKeys := ks' \<rparr>) h req endpointOption optionsOnly
             overrideEndpoint overrideModel
           = initializeClient ext srv h req endpointOption optionsOnly overrideEndpoint
               overrideModel" for ks'
    by (simp add: initializeClient_def initializeClient_call_def u)
  have k: "OPENROUTER_KEY (process_env srv) = Some k"
    if "endpoint_of req overrideEndpoint \<noteq> EModelEndpoint_azureOpenAI"
      and "resolveOptions ext (srv \<lparr> userKeys := ks \<rparr>) req endpointOption overrideEndpoint
              overrideModel = Inr (k, co)"
    using that
    by (auto simp: u resolveOptions_relay str_truthy_def nullish_def
        split: if_splits option.splits)
  from p i k show ?thesis by (auto simp: i)
qed

text \<open>With a key \<open>user-key\<close> stored for \<open>alice\<close> and \<open>openAI\<close>, the credential is
  still \<open>relay-key\<close>.\<close>

theorem relay_key_ignores_user_keys_witness:
  "(case resolveOptions example_externals
           (example_server \<lparr> userKeys :=
              [(JStr ''alice'', ''openAI'') \<mapsto>
                 \<lparr> key_value = ''user-key'', key_expiresAt = None \<rparr>] \<rparr>)
           default_request no_options None None of
      Inr (k, co) \<Rightarrow> k = ''relay-key''
    | Inl err \<Rightarrow> False)"
proof -
  let ?ks = "[(JStr ''alice'', ''openAI'') \<mapsto>
               \<lparr> key_value = ''user-key'', key_expiresAt = None \<rparr>]"
  have a: "endpoint_of default_request None \<noteq> EModelEndpoint_azureOpenAI"
    by (simp add: model_defs example_defs default_request_def)
  obtain k co where
    r: "resolveOptions example_externals (example_server \<lparr> userKeys := ?ks \<rparr>)
          default_request no_options None None = Inr (k, co)"
    by (simp add: model_defs example_defs default_request_def)
  from relay_key_ignores_user_keys
         [where ext = example_externals and srv = example_server and ks = ?ks
            and req = default_request and endpointOption = no_options
            and overrideEndpoint = None and overrideModel = None and k = k and co = co] a r
  have "OPENROUTER_KEY (process_env example_server) = Some k"
    by blast
  then have "k = ''relay-key''"
    by (simp add: example_defs)
  with r show ?thesis by simp
qed

section \<open>A configuration for all endpoints without stream rate\<close>

text \<open>
  Claim C9. When the application has a configuration for all endpoints, the merged
  stream rate is that configuration's \<open>streamRate\<close>, also when it has none: the rate
  the Azure branch or the endpoint's configuration gave is then overwritten by
  \<open>undefined\<close>, and options-only mode returns what \<open>getLLMConfig\<close> returned, with no
  callbacks assigned.
\<close>

theorem all_endpoints_config_overwrites_streamRate:
  assumes "locals_all (locals req) = Some allConfig"
  shows "(resolveOptions ext srv req endpointOption overrideEndpoint overrideModel = Inr (k, co)
            \<longrightarrow> streamRate co = cfg_streamRate allConfig)
       \<and> (cfg_streamRate allConfig = None
            \<longrightarrow> initializeClient ext srv h req endpointOption True overrideEndpoint overrideModel
                  = Inr (r, h')
            \<longrightarrow> (\<exists>apiKey handed.
                   streamRate handed = None
                 \<and> r = OptionsOnly (getLLMConfig ext apiKey handed h')))"
proof (intro conjI impI)
  assume r: "resolveOptions ext srv req endpointOption overrideEndpoint overrideModel = Inr (k, co)"
  from resolveOptions_merged [OF r] assms show "streamRate co = cfg_streamRate allConfig"
    by (auto simp: appOverrides_all)
next
  assume n: "cfg_streamRate allConfig = None"
    and i: "initializeClient ext srv h req endpointOption True overrideEndpoint overrideModel
              = Inr (r, h')"
  from optionsOnly_result [OF i] obtain apiKey co a target where
    ro: "resolveOptions ext srv req endpointOption overrideEndpoint overrideModel = Inr (apiKey, co)"
    and a: "model_parameters endpointOption = Some a"
    and t: "(case modelOptions co of Some own \<Rightarrow> own | None \<Rightarrow> Value a) = Value target"
    and o: "optionsOnlyResult ext h req endpointOption (modelName_of req overrideModel)
              apiKey co = (Inr r, h')"
    by blast
  from resolveOptions_merged [OF ro] assms n have s: "streamRate co = None"
    by (auto simp: appOverrides_all)
  let ?handed = "co \<lparr> modelOptions := Some (Value target) \<rparr>"
  have "streamRate ?handed = None"
    using s by simp
  moreover have "r = OptionsOnly (getLLMConfig ext apiKey ?handed h')"
    using o s unfolding optionsOnlyResult_Value [OF a t]
    by (auto simp: num_truthy_def)
  ultimately show "\<exists>apiKey handed. streamRate handed = None
      \<and> r = OptionsOnly (getLLMConfig ext apiKey handed h')"
    by blast
qed

text \<open>On the Azure path the derived rate 30 is overwritten: the merged options have no
  stream rate and options-only mode returns a configuration without callbacks.\<close>

theorem all_endpoints_config_overwrites_streamRate_witness:
  "(case resolveOptions example_externals example_server
           (example_request \<lparr> locals := all_without_rate_locals \<rparr>) no_options None None of
      Inr (k, co) \<Rightarrow> streamRate co = None
    | Inl err \<Rightarrow> False)
   \<and> (case initializeClient example_externals example_server example_heap
             (example_request \<lparr> locals := all_without_rate_locals \<rparr>)
             (no_options \<lparr> model_parameters := Some 0 \<rparr>) True None None of
        Inr (OptionsOnly opts, h') \<Rightarrow> callbacks (llmConfig opts) = None
      | _ \<Rightarrow> False)"
proof -
  let ?req = "example_request \<lparr> locals := all_without_rate_locals \<rparr>"
  let ?all = "\<lparr> cfg_streamRate = None, cfg_titleModel = None \<rparr>"
  let ?eo = "no_options \<lparr> model_parameters := Some 0 \<rparr>"
  have a: "locals_all (locals ?req) = Some ?all"
    by (simp add: all_without_rate_locals_def)
  obtain k co where
    r: "resolveOptions example_externals example_server ?req no_options None None = Inr (k, co)"
    by (simp add: model_defs example_defs all_without_rate_locals_def)
  obtain res h' where
    i: "initializeClient example_externals example_server example_heap ?req ?eo True None None
          = Inr (res, h')"
    by (simp add: model_defs example_defs all_without_rate_locals_def Let_def)
  note t = all_endpoints_config_overwrites_streamRate [OF a]
  from t [where ext = example_externals and srv = example_server
            and endpointOption = no_options and overrideEndpoint = None
            and overrideModel = None and k = k and co = co] r
  have 1: "streamRate co = None"
    by simp
  from t [where ext = example_externals and srv = example_server and h = example_heap
            and endpointOption = ?eo and overrideEndpoint = None
            and overrideModel = None and r = res and h' = h', THEN conjunct2] i
  have "\<exists>apiKey handed. streamRate handed = None
      \<and> res = OptionsOnly (getLLMConfig example_externals apiKey handed h')"
    by simp
  then obtain apiKey handed where
    "res = OptionsOnly (getLLMConfig example_externals apiKey handed h')"
    by blast
  then have 2: "\<exists>opts. res = OptionsOnly opts \<and> callbacks (llmConfig opts) = None"
    by (simp add: example_externals_def)
  from 1 2 r i show ?thesis by auto
qed

section \<open>Serverless Azure groups\<close>

text \<open>
  Claim C6. For a request on the Azure endpoint whose model maps to a serverless group
  and whose resolution succeeds, the header map of the merged options has the resolved
  key under \<open>api-key\<close>, the \<open>azure\<close> property is \<open>false\<close> (no credential block), and
  \<open>defaultQuery\<close> is \<open>{ 'api-version': v }\<close> when the Azure options have a non-empty
  API version \<open>v\<close> and \<open>undefined\<close> when they have none or an empty one.
\<close>

theorem serverless_api_key_header:
  assumes "endpoint_of req overrideEndpoint = EModelEndpoint_azureOpenAI"
    and "locals_azureOpenAI (locals req) = Some azureConfig"
    and "mapModelToAzureConfig ext (modelName_of req overrideModel)
           (az_modelGroupMap azureConfig) (az_groupMap azureConfig) = Inr mapped"
    and "serverless mapped"
    and "resolveOptions ext srv req endpointOption overrideEndpoint overrideModel = Inr (k, co)"
  shows "azureOpenAIApiKey (azureOptions mapped) = Some k
       \<and> (\<exists>hs. headers co = Some hs \<and> hs ''api-key'' = Some k)
       \<and> azure co = Some AzureFalse
       \<and> (str_truthy (azureOpenAIApiVersion (azureOptions mapped))
            \<longrightarrow> (\<exists>v. azureOpenAIApiVersion (azureOptions mapped) = Some v
                    \<and> defaultQuery co = Some [''api-version'' \<mapsto> v]))
       \<and> (\<not> str_truthy (azureOpenAIApiVersion (azureOptions mapped))
            \<longrightarrow> defaultQuery co = None)"
proof -
  from resolveOptions_azure [OF assms(1,2,5)] obtain derived where
    d: "azureOverrides ext azureConfig (modelName_of req overrideModel)
          (initialOptions ext (process_env srv) endpointOption) = Inr (derived, Some k)"
    and co: "co = appOverrides req True derived"
    by blast
  from azureOverrides_Inr [OF d] obtain name where
    n: "modelName_of req overrideModel = Some name"
    by blast
  note f = azureOverrides_fields [OF d [unfolded n] assms(3) [unfolded n]]
  have key: "azureOpenAIApiKey (azureOptions mapped) = Some k"
    using f(1) by simp
  have hs: "\<exists>hs. headers co = Some hs \<and> hs ''api-key'' = Some k"
    using f(4) assms(4) co by (simp add: appOverrides_frame)
  have az: "azure co = Some AzureFalse"
    using f(3) assms(4) co by (simp add: appOverrides_frame)
  have dq: "defaultQuery co = versionQuery (azureOpenAIApiVersion (azureOptions mapped))"
    using f(5) assms(4) co by (simp add: appOverrides_frame)
  from key hs az dq show ?thesis
    by (auto simp: versionQuery_def str_truthy_def split: option.splits)
qed

text \<open>Model \<open>mistral-large\<close> of the serverless group \<open>g2\<close>, which has a version, and
  model \<open>phi-3\<close> of the serverless group \<open>g3\<close>, which has none.\<close>

theorem serverless_api_key_header_witness:
  "(case resolveOptions example_externals example_server example_request no_options
          None (Some ''mistral-large'') of
      Inr (k, co) \<Rightarrow>
        k = ''key-g2''
        \<and> (case headers co of Some hs \<Rightarrow> hs ''api-key'' = Some ''key-g2'' | None \<Rightarrow> False)
        \<and> azure co = Some AzureFalse
        \<and> (case defaultQuery co of
             Some q \<Rightarrow> q ''api-version'' = Some ''2024-05-01''
           | None \<Rightarrow> False)
    | Inl err \<Rightarrow> False)
   \<and> (case resolveOptions example_externals example_server example_request no_options
          None (Some ''phi-3'') of
      Inr (k, co) \<Rightarrow> k = ''key-g3'' \<and> defaultQuery co = None
    | Inl err \<Rightarrow> False)"
proof -
  let ?mgm = "az_modelGroupMap example_azureConfig"
  let ?gm = "az_groupMap example_azureConfig"
  have a: "endpoint_of example_request None = EModelEndpoint_azureOpenAI"
    by (simp add: model_defs example_defs)
  have b: "locals_azureOpenAI (locals example_request) = Some example_azureConfig"
    by (simp add: example_defs)
  obtain m2 where m2: "mapModelToAzureConfig example_externals
        (modelName_of example_request (Some ''mistral-large'')) ?mgm ?gm = Inr m2"
    and s2: "serverless m2"
    and k2: "azureOpenAIApiKey (azureOptions m2) = Some ''key-g2''"
    and v2: "azureOpenAIApiVersion (azureOptions m2) = Some ''2024-05-01''"
    by (simp add: model_defs example_defs)
  obtain m3 where m3: "mapModelToAzureConfig example_externals
        (modelName_of example_request (Some ''phi-3'')) ?mgm ?gm = Inr m3"
    and s3: "serverless m3"
    and k3: "azureOpenAIApiKey (azureOptions m3) = Some ''key-g3''"
    and v3: "azureOpenAIApiVersion (azureOptions m3) = None"
    by (simp add: model_defs example_defs)
  obtain k co where r: "resolveOptions example_externals example_server example_request
      no_options None (Some ''mistral-large'') = Inr (k, co)"
    by (simp add: model_defs example_defs)
  obtain k' co' where r': "resolveOptions example_externals example_server example_request
      no_options None (Some ''phi-3'') = Inr (k', co')"
    by (simp add: model_defs example_defs)
  from serverless_api_key_header [OF a b m2 s2 r] k2 v2
  have 1: "k = ''key-g2''
      \<and> (\<exists>hs. headers co = Some hs \<and> hs ''api-key'' = Some ''key-g2'')
      \<and> azure co = Some AzureFalse
      \<and> defaultQuery co = Some [''api-version'' \<mapsto> ''2024-05-01'']"
    by (auto simp: str_truthy_def)
  from serverless_api_key_header [OF a b m3 s3 r'] k3 v3
  have 2: "k' = ''key-g3'' \<and> defaultQuery co' = None"
    by (auto simp: str_truthy_def)
  from 1 2 r r' show ?thesis by auto
qed

section \<open>Headers of the request and of the Azure group\<close>

text \<open>
  Claim C5, as stated, fails: the group \<open>g1\<close> gives the header \<open>x-source\<close> the value
  \<open>azure\<close>, the request's endpoint options give it the value \<open>request\<close>, and the merged
  header map has \<open>request\<close>.
\<close>

theorem azure_header_precedence_counterexample:
  "(case mapModelToAzureConfig example_externals (Some ''gpt-4-turbo'')
           (az_modelGroupMap example_azureConfig) (az_groupMap example_azureConfig) of
      Inr mapped \<Rightarrow>
        (case mapped_headers mapped of
           Some hs \<Rightarrow> hs ''x-source'' = Some ''azure''
         | None \<Rightarrow> False)
    | Inl err \<Rightarrow> False)
   \<and> (case resolveOptions example_externals example_server example_request
             (no_options \<lparr> headers := Some [''x-source'' \<mapsto> ''request''] \<rparr>) None None of
        Inr (k, co) \<Rightarrow>
          (case headers co of
             Some hs \<Rightarrow> hs ''x-source'' = Some ''request'' \<and> hs ''x-source'' \<noteq> Some ''azure''
           | None \<Rightarrow> False)
      | Inl err \<Rightarrow> False)"
  by (simp add: model_defs example_defs)

text \<open>
  Claim C5, amended. On the Azure path, a header the request's endpoint options supply
  keeps the request's value in the object handed to \<open>resolveHeaders\<close>, also when the
  group supplies a header of the same name (line 86 spreads the request's headers after
  the group's); the merged header map is what \<open>resolveHeaders\<close> returns for that
  object, with \<open>api-key\<close> set to the key for a serverless group.
\<close>

theorem request_headers_override_azure_headers:
  assumes "endpoint_of req overrideEndpoint = EModelEndpoint_azureOpenAI"
    and "locals_azureOpenAI (locals req) = Some azureConfig"
    and "mapModelToAzureConfig ext (modelName_of req overrideModel)
           (az_modelGroupMap azureConfig) (az_groupMap azureConfig) = Inr mapped"
    and "resolveOptions ext srv req endpointOption overrideEndpoint overrideModel = Inr (k, co)"
    and "headers endpointOption = Some requestHeaders"
    and "requestHeaders name = Some v"
  shows "mergedHeaders mapped (initialOptions ext (process_env srv) endpointOption) name = Some v
       \<and> (\<exists>hs. headers co = Some hs
              \<and> (\<not> serverless mapped
                   \<longrightarrow> hs = resolveHeaders ext
                            (mergedHeaders mapped
                               (initialOptions ext (process_env srv) endpointOption)))
              \<and> (serverless mapped
                   \<longrightarrow> hs = (resolveHeaders ext
                            (mergedHeaders mapped
                               (initialOptions ext (process_env srv) endpointOption)))
                            (''api-key'' \<mapsto> k)))"
proof -
  let ?co0 = "initialOptions ext (process_env srv) endpointOption"
  from resolveOptions_azure [OF assms(1,2,4)] obtain derived where
    d: "azureOverrides ext azureConfig (modelName_of req overrideModel) ?co0
          = Inr (derived, Some k)"
    and co: "co = appOverrides req True derived"
    by blast
  from azureOverrides_Inr [OF d] obtain name' where
    n: "modelName_of req overrideModel = Some name'"
    by blast
  note f = azureOverrides_fields [OF d [unfolded n] assms(3) [unfolded n]]
  have 1: "mergedHeaders mapped ?co0 name = Some v"
    using assms(5,6)
    by (simp add: mergedHeaders_def initialOptions_request_props nullish_def map_add_def)
  from f(4) co have 2: "headers co =
      Some (if serverless mapped
            then (resolveHeaders ext (mergedHeaders mapped ?co0))(''api-key'' \<mapsto> k)
            else resolveHeaders ext (mergedHeaders mapped ?co0))"
    by (simp add: appOverrides_frame)
  from 1 2 show ?thesis by simp
qed

text \<open>The same request: the merged header is the request's.\<close>

theorem request_headers_override_azure_headers_witness:
  "(case resolveOptions example_externals example_server example_request
             (no_options \<lparr> headers := Some [''x-source'' \<mapsto> ''request''] \<rparr>) None None of
        Inr (k, co) \<Rightarrow>
          (case headers co of
             Some hs \<Rightarrow> hs ''x-source'' = Some ''request''
           | None \<Rightarrow> False)
      | Inl err \<Rightarrow> False)"
proof -
  let ?eo = "no_options \<lparr> headers := Some [''x-source'' \<mapsto> ''request''] \<rparr>"
  have a: "endpoint_of example_request None = EModelEndpoint_azureOpenAI"
    by (simp add: model_defs example_defs)
  have b: "locals_azureOpenAI (locals example_request) = Some example_azureConfig"
    by (simp add: example_defs)
  obtain mapped where m: "mapModelToAzureConfig example_externals
        (modelName_of example_request None)
        (az_modelGroupMap example_azureConfig) (az_groupMap example_azureConfig) = Inr mapped"
    and s: "\<not> serverless mapped"
    by (simp add: model_defs example_defs)
  obtain k co where r: "resolveOptions example_externals example_server example_request
      ?eo None None = Inr (k, co)"
    by (simp add: model_defs example_defs)
  have h: "headers ?eo = Some [''x-source'' \<mapsto> ''request'']"
    by simp
  have v: "[''x-source'' \<mapsto> ''request''] ''x-source'' = Some ''request''"
    by simp
  from request_headers_override_azure_headers [OF a b m r h v] s
  have "\<exists>hs. headers co = Some hs \<and> hs ''x-source'' = Some ''request''"
    by (auto simp: example_externals_def)
  with r show ?thesis by auto
qed

section \<open>The throttle hook of options-only mode\<close>

text \<open>
  Claim C4, as stated, fails: with the stream rate configured as 0 the merged options
  have stream rate 0 and options-only mode attaches no callback, since line 146 tests
  the rate for truthiness and 0 is falsy.
\<close>

theorem throttle_hook_zero_rate_counterexample:
  "(case resolveOptions example_externals example_server
           (example_request \<lparr> locals := zero_rate_locals \<rparr>)
           (no_options \<lparr> model_parameters := Some 0 \<rparr>) None None of
      Inr (k, co) \<Rightarrow> streamRate co = Some 0
    | Inl err \<Rightarrow> False)
   \<and> (case initializeClient example_externals example_server example_heap
             (example_request \<lparr> locals := zero_rate_locals \<rparr>)
             (no_options \<lparr> model_parameters := Some 0 \<rparr>) True None None of
        Inr (OptionsOnly opts, h') \<Rightarrow> callbacks (llmConfig opts) = None
      | _ \<Rightarrow> False)"
  by (simp add: model_defs example_defs zero_rate_locals_def)

text \<open>
  Claim C4, amended. When options-only mode returns, the options handed to
  \<open>getLLMConfig\<close> have the merged stream rate. If that rate is a number other than 0,
  the returned options are what \<open>getLLMConfig\<close> returned with \<open>callbacks\<close> assigned a
  list of exactly one hook, and each call of the hook sleeps for exactly the merged
  rate. If there is no rate, or the rate is 0, the returned options are what
  \<open>getLLMConfig\<close> returned, nothing assigned.
\<close>

theorem throttle_hook_iff_truthy_rate:
  assumes "initializeClient ext srv h req endpointOption True overrideEndpoint overrideModel
             = Inr (r, h')"
  shows "\<exists>apiKey co handed.
           resolveOptions ext srv req endpointOption overrideEndpoint overrideModel
             = Inr (apiKey, co)
         \<and> streamRate handed = streamRate co
         \<and> (if num_truthy (streamRate co)
             then r = OptionsOnly
                        ((getLLMConfig ext apiKey handed h')
                           \<lparr> llmConfig :=
                               (llmConfig (getLLMConfig ext apiKey handed h'))
                                 \<lparr> callbacks := Some [ThrottleCallback handed] \<rparr> \<rparr>)
                \<and> handleLLMNewToken (ThrottleCallback handed) = [Sleep (streamRate co)]
             else r = OptionsOnly (getLLMConfig ext apiKey handed h'))"
proof -
  from optionsOnly_result [OF assms] obtain apiKey co a target where
    ro: "resolveOptions ext srv req endpointOption overrideEndpoint overrideModel
           = Inr (apiKey, co)"
    and a: "model_parameters endpointOption = Some a"
    and t: "(case modelOptions co of Some own \<Rightarrow> own | None \<Rightarrow> Value a) = Value target"
    and o: "optionsOnlyResult ext h req endpointOption (modelName_of req overrideModel)
              apiKey co = (Inr r, h')"
    by blast
  let ?handed = "co \<lparr> modelOptions := Some (Value target) \<rparr>"
  have s: "streamRate ?handed = streamRate co"
    by simp
  have "if num_truthy (streamRate co)
        then r = OptionsOnly
                   ((getLLMConfig ext apiKey ?handed h')
                      \<lparr> llmConfig :=
                          (llmConfig (getLLMConfig ext apiKey ?handed h'))
                            \<lparr> callbacks := Some [ThrottleCallback ?handed] \<rparr> \<rparr>)
           \<and> handleLLMNewToken (ThrottleCallback ?handed) = [Sleep (streamRate co)]
        else r = OptionsOnly (getLLMConfig ext apiKey ?handed h')"
    using o unfolding optionsOnlyResult_Value [OF a t]
    by auto
  with ro s show ?thesis by blast
qed

text \<open>Model \<open>gpt-4-turbo\<close> on the Azure path: one hook, sleeping 30 milliseconds.\<close>

theorem throttle_hook_iff_truthy_rate_witness:
  "(case initializeClient example_externals example_server example_heap example_request
           (no_options \<lparr> model_parameters := Some 0 \<rparr>) True None None of
      Inr (OptionsOnly opts, h') \<Rightarrow>
        (case callbacks (llmConfig opts) of
           Some [cb] \<Rightarrow> handleLLMNewToken cb = [Sleep (Some 30)]
         | _ \<Rightarrow> False)
    | _ \<Rightarrow> False)"
proof -
  let ?eo = "no_options \<lparr> model_parameters := Some 0 \<rparr>"
  obtain r h' where i: "initializeClient example_externals example_server example_heap
      example_request ?eo True None None = Inr (r, h')"
    by (simp add: model_defs example_defs)
  have ro: "\<exists>k co. resolveOptions example_externals example_server example_request ?eo None None
      = Inr (k, co) \<and> streamRate co = Some 30"
    by (simp add: model_defs example_defs)
  from throttle_hook_iff_truthy_rate [OF i] ro
  obtain handed opts where "r = OptionsOnly opts"
    and "callbacks (llmConfig opts) = Some [ThrottleCallback handed]"
    and "handleLLMNewToken (ThrottleCallback handed) = [Sleep (Some 30)]"
    by (auto simp: num_truthy_def)
  with i show ?thesis by simp
qed

section \<open>The writes of options-only mode\<close>

text \<open>
  Claim C10, as stated, fails: when the endpoint options have a \<open>modelOptions\<close> property
  of their own (the object at address 1) besides \<open>model_parameters\<close> (the object at
  address 0), the model name is written to the object at 0 and the user's identifier to
  the object at 1; the \<open>model_parameters\<close> object gets no \<open>user\<close>.
\<close>

theorem user_stamp_other_object_counterexample:
  "(case initializeClient example_externals example_server example_heap example_request
           (no_options \<lparr> model_parameters := Some 0, modelOptions := Some (Value 1) \<rparr>)
           True None None of
      Inr (r, h') \<Rightarrow>
        h' 0 ''model'' = Some (JStr ''gpt-4-turbo'')
        \<and> h' 0 ''user'' = None
        \<and> h' 1 ''user'' = Some (JStr ''alice'')
    | Inl err \<Rightarrow> False)"
  by (simp add: model_defs example_defs)

text \<open>
  Claim C10, amended. When options-only mode returns, the endpoint options had a
  \<open>model_parameters\<close> object, and the heap after the call has the resolved model name
  as property \<open>model\<close> of that object and the user's identifier as property \<open>user\<close> of
  the object \<open>modelOptions\<close> refers to: the \<open>model_parameters\<close> object itself when
  the endpoint options have no \<open>modelOptions\<close> property of their own, the object that
  property refers to when they have one. No other object is written. The options
  handed to \<open>getLLMConfig\<close> hold the addresses of these objects, not copies, and
  \<open>getLLMConfig\<close> sees the heap after the writes. When the endpoint options have a
  \<open>modelOptions\<close> property whose value is \<open>undefined\<close> or \<open>null\<close>, a call whose
  resolution succeeds throws a \<open>TypeError\<close>, and the heap after the call has the model
  name written to the \<open>model_parameters\<close> object and nothing else changed.
\<close>

theorem model_parameters_written_in_place:
  "(initializeClient ext srv h req endpointOption True overrideEndpoint overrideModel
      = Inr (r, h')
    \<longrightarrow> (\<exists>a target apiKey handed.
           model_parameters endpointOption = Some a
         \<and> (modelOptions endpointOption = None \<and> target = a
            \<or> modelOptions endpointOption = Some (Value target))
         \<and> h' a ''model'' = Some (js_of_str (modelName_of req overrideModel))
         \<and> h' target ''user'' = Some (JStr (user_id req))
         \<and> (\<forall>b. b \<noteq> a \<and> b \<noteq> target \<longrightarrow> h' b = h b)
         \<and> model_parameters handed = Some a
         \<and> modelOptions handed = Some (Value target)
         \<and> (r = OptionsOnly (getLLMConfig ext apiKey handed h')
            \<or> r = OptionsOnly
                    ((getLLMConfig ext apiKey handed h')
                       \<lparr> llmConfig :=
                           (llmConfig (getLLMConfig ext apiKey handed h'))
                             \<lparr> callbacks := Some [ThrottleCallback handed] \<rparr> \<rparr>))))
   \<and> (resolveOptions ext srv req endpointOption overrideEndpoint overrideModel = Inr (k, co)
      \<longrightarrow> model_parameters endpointOption = Some p
      \<longrightarrow> modelOptions endpointOption = Some Nullish
      \<longrightarrow> initializeClient_call ext srv h req endpointOption True overrideEndpoint overrideModel
            = (Inl TypeError,
               assign_prop h p ''model'' (js_of_str (modelName_of req overrideModel))))"
proof (intro conjI impI)
  assume i: "initializeClient ext srv h req endpointOption True overrideEndpoint overrideModel
      = Inr (r, h')"
  from optionsOnly_result [OF i] obtain apiKey co' a target where
    ro: "resolveOptions ext srv req endpointOption overrideEndpoint overrideModel
           = Inr (apiKey, co')"
    and a: "model_parameters endpointOption = Some a"
    and t: "(case modelOptions co' of Some own \<Rightarrow> own | None \<Rightarrow> Value a) = Value target"
    and o: "optionsOnlyResult ext h req endpointOption (modelName_of req overrideModel)
              apiKey co' = (Inr r, h')"
    by blast
  from resolveOptions_refs [OF ro] a have
    mo: "modelOptions co' = modelOptions endpointOption"
    and mp: "model_parameters co' = Some a"
    by simp_all
  have tg: "modelOptions endpointOption = None \<and> target = a
      \<or> modelOptions endpointOption = Some (Value target)"
    using t unfolding mo by (cases "modelOptions endpointOption") auto
  define handed where "handed = co' \<lparr> modelOptions := Some (Value target) \<rparr>"
  define h1 where "h1 = assign_prop h a ''model'' (js_of_str (modelName_of req overrideModel))"
  from o have h': "h' = assign_prop h1 target ''user'' (JStr (user_id req))"
    unfolding optionsOnlyResult_Value [OF a t] h1_def by simp
  from o have r: "r = OptionsOnly (getLLMConfig ext apiKey handed h')
         \<or> r = OptionsOnly
                 ((getLLMConfig ext apiKey handed h')
                    \<lparr> llmConfig :=
                        (llmConfig (getLLMConfig ext apiKey handed h'))
                          \<lparr> callbacks := Some [ThrottleCallback handed] \<rparr> \<rparr>)"
    unfolding optionsOnlyResult_Value [OF a t] h' handed_def h1_def
    by (simp split: if_splits)
  have 1: "h' a ''model'' = Some (js_of_str (modelName_of req overrideModel))"
    by (simp add: h' h1_def assign_prop_def)
  have 2: "h' target ''user'' = Some (JStr (user_id req))"
    by (simp add: h' assign_prop_same)
  have 4: "\<forall>b. b \<noteq> a \<and> b \<noteq> target \<longrightarrow> h' b = h b"
    by (simp add: h' h1_def assign_prop_other_addr)
  have 5: "model_parameters handed = Some a" "modelOptions handed = Some (Value target)"
    using mp by (simp_all add: handed_def)
  show "\<exists>a target apiKey handed.
           model_parameters endpointOption = Some a
         \<and> (modelOptions endpointOption = None \<and> target = a
            \<or> modelOptions endpointOption = Some (Value target))
         \<and> h' a ''model'' = Some (js_of_str (modelName_of req overrideModel))
         \<and> h' target ''user'' = Some (JStr (user_id req))
         \<and> (\<forall>b. b \<noteq> a \<and> b \<noteq> target \<longrightarrow> h' b = h b)
         \<and> model_parameters handed = Some a
         \<and> modelOptions handed = Some (Value target)
         \<and> (r = OptionsOnly (getLLMConfig ext apiKey handed h')
            \<or> r = OptionsOnly
                    ((getLLMConfig ext apiKey handed h')
                       \<lparr> llmConfig :=
                           (llmConfig (getLLMConfig ext apiKey handed h'))
                             \<lparr> callbacks := Some [ThrottleCallback handed] \<rparr> \<rparr>))"
    apply (rule exI [of _ a])
    apply (rule exI [of _ target])
    apply (rule exI [of _ apiKey])
    apply (rule exI [of _ handed])
    using a tg 1 2 4 5 r
    apply simp
    done
next
  assume ro: "resolveOptions ext srv req endpointOption overrideEndpoint overrideModel = Inr (k, co)"
    and p: "model_parameters endpointOption = Some p"
    and n: "modelOptions endpointOption = Some Nullish"
  from resolveOptions_refs [OF ro] n have "modelOptions co = Some Nullish"
    by simp
  from optionsOnlyResult_Nullish [OF p this] ro
  show "initializeClient_call ext srv h req endpointOption True overrideEndpoint overrideModel
      = (Inl TypeError, assign_prop h p ''model'' (js_of_str (modelName_of req overrideModel)))"
    by (simp add: initializeClient_call_def)
qed

text \<open>With only \<open>model_parameters\<close> in the endpoint options, model and user are both
  written to its object, and the object at address 1 is as before. With a
  \<open>modelOptions\<close> that is \<open>null\<close> the call throws, the model name written.\<close>

theorem model_parameters_written_in_place_witness:
  "(case initializeClient example_externals example_server example_heap example_request
           (no_options \<lparr> model_parameters := Some 0 \<rparr>) True None None of
      Inr (r, h') \<Rightarrow>
        h' 0 ''model'' = Some (JStr ''gpt-4-turbo'')
        \<and> h' 0 ''user'' = Some (JStr ''alice'')
        \<and> h' 1 = example_heap 1
    | Inl err \<Rightarrow> False)
   \<and> initializeClient_call example_externals example_server example_heap example_request
        (no_options \<lparr> model_parameters := Some 0, modelOptions := Some Nullish \<rparr>)
        True None None
      = (Inl TypeError, assign_prop example_heap 0 ''model'' (JStr ''gpt-4-turbo''))"
proof -
  let ?eo = "no_options \<lparr> model_parameters := Some 0 \<rparr>"
  let ?eo' = "no_options \<lparr> model_parameters := Some 0, modelOptions := Some Nullish \<rparr>"
  obtain r h' where i: "initializeClient example_externals example_server example_heap
      example_request ?eo True None None = Inr (r, h')"
    by (simp add: model_defs example_defs)
  have m: "model_parameters ?eo = Some 0" "modelOptions ?eo = None"
    by (simp_all add: no_options_def)
  have m': "model_parameters ?eo' = Some 0" "modelOptions ?eo' = Some Nullish"
    by (simp_all add: no_options_def)
  have n: "js_of_str (modelName_of example_request None) = JStr ''gpt-4-turbo''"
    "user_id example_request = ''alice''"
    by (simp_all add: model_defs example_defs)
  obtain k co where ro: "resolveOptions example_externals example_server example_request
      ?eo' None None = Inr (k, co)"
    by (simp add: model_defs example_defs)
  note t = model_parameters_written_in_place
    [where ext = example_externals and srv = example_server and h = example_heap
       and req = example_request and overrideEndpoint = None and overrideModel = None]
  from t [where endpointOption = ?eo and r = r and h' = h', THEN conjunct1] i m n
  have 1: "h' 0 ''model'' = Some (JStr ''gpt-4-turbo'')
      \<and> h' 0 ''user'' = Some (JStr ''alice'')
      \<and> h' 1 = example_heap 1"
    by auto
  from t [where endpointOption = ?eo' and k = k and co = co and p = 0, THEN conjunct2] ro m' n
  have 2: "initializeClient_call example_externals example_server example_heap example_request
        ?eo' True None None
      = (Inl TypeError, assign_prop example_heap 0 ''model'' (JStr ''gpt-4-turbo''))"
    by simp
  from 1 2 i show ?thesis by simp
qed

section \<open>The route PUT /keys and the locked provider\<close>

text \<open>
  For the provider name \<open>openAI\<close> the route answers 403 with an error message and
  leaves the server, its key store included, as it was. For any other name it answers
  201 with no body and upserts the record of that name and of the user id handed to
  \<open>updateUserKey\<close>: the caller's for a body without a \<open>userId\<close> property, the
  property's value otherwise.
\<close>

lemma put_keys_locked:
  assumes "kb_name body = ''openAI''"
  shows "fst (put_keys srv caller body)
           = \<lparr> status = 403,
               sent = Some (JObj [(''error'',
                 JStr ''OpenAI API keys are managed by the system administrator'')]) \<rparr>"
    and "snd (put_keys srv caller body) = srv"
  using assms by (simp_all add: put_keys_def)

lemma put_keys_other:
  assumes "kb_name body \<noteq> ''openAI''"
  shows "fst (put_keys srv caller body) = \<lparr> status = 201, sent = None \<rparr>"
    and "userKeys (snd (put_keys srv caller body)) =
           (userKeys srv)
             (((case kb_userId body of Some own \<Rightarrow> own | None \<Rightarrow> JStr caller), kb_name body) \<mapsto>
                \<lparr> key_value = kb_value body, key_expiresAt = kb_expiresAt body \<rparr>)"
    and "process_env (snd (put_keys srv caller body)) = process_env srv"
  using assms by (simp_all add: put_keys_def updateUserKey_def)

lemma put_keys_caller:
  assumes "kb_name body \<noteq> ''openAI''" and "kb_userId body = None"
  shows "userKeys (snd (put_keys srv caller body)) =
           (userKeys srv)((JStr caller, kb_name body) \<mapsto>
              \<lparr> key_value = kb_value body, key_expiresAt = kb_expiresAt body \<rparr>)"
  using assms by (simp add: put_keys_def updateUserKey_def)

text \<open>
  Claim C8 on the code: the caller \<open>alice\<close> sends a body that names the provider
  \<open>anthropic\<close> and has the property \<open>userId\<close> with value \<open>bob\<close>. The route answers 201,
  and the record upserted is the one of \<open>bob\<close>; \<open>alice\<close> has no record for
  \<open>anthropic\<close> afterwards. In \<open>{ userId: req.user.id, ...req.body }\<close> the body is spread
  after \<open>userId\<close>, so its \<open>userId\<close> replaces the caller's.
\<close>

theorem put_keys_body_userId_upserts_other_user:
  "fst (put_keys example_server ''alice''
          \<lparr> kb_userId = Some (JStr ''bob''), kb_name = ''anthropic'', kb_value = ''k1'',
            kb_expiresAt = None \<rparr>) = \<lparr> status = 201, sent = None \<rparr>
   \<and> userKeys (snd (put_keys example_server ''alice''
          \<lparr> kb_userId = Some (JStr ''bob''), kb_name = ''anthropic'', kb_value = ''k1'',
            kb_expiresAt = None \<rparr>)) (JStr ''alice'', ''anthropic'') = None
   \<and> userKeys (snd (put_keys example_server ''alice''
          \<lparr> kb_userId = Some (JStr ''bob''), kb_name = ''anthropic'', kb_value = ''k1'',
            kb_expiresAt = None \<rparr>)) (JStr ''bob'', ''anthropic'')
        = Some \<lparr> key_value = ''k1'', key_expiresAt = None \<rparr>"
  by (simp add: put_keys_def updateUserKey_def example_server_def)

end
